theory Spec2Isabelle
  imports Complex_Main
begin

section \<open>Strings\<close>

text \<open>
  A Python \<open>str\<close> is modelled as a list of characters, each character standing for one
  code point below 256 (the category name \<open>ni\<tilde>o\<close> has the code point 241). The
  predicates below are Python's \<open>str.isspace\<close>, \<open>str.lower\<close> and \<open>str.strip\<close> on that range.
\<close>

definition isspace :: "char \<Rightarrow> bool" where
  "isspace c = (of_char c \<in> set [9, 10, 11, 12, 13, 28, 29, 30, 31, 32, 133, 160 :: nat])"

definition lower_char :: "char \<Rightarrow> char" where
  "lower_char c =
     (let n = (of_char c :: nat)
      in if (65 \<le> n \<and> n \<le> 90) \<or> (192 \<le> n \<and> n \<le> 222 \<and> n \<noteq> 215)
         then char_of (n + 32) else c)"

definition lower :: "string \<Rightarrow> string" where
  "lower s = map lower_char s"

definition strip :: "string \<Rightarrow> string" where
  "strip s = rev (dropWhile isspace (rev (dropWhile isspace s)))"

section \<open>Errors\<close>

datatype py_error = ValueError | KeyError | OverflowError

section \<open>Dates: the calendar arithmetic of the datetime module\<close>

record date =
  year :: int
  month :: int
  day :: int

record datetime = date +
  hour :: int
  minute :: int
  second :: int
  microsecond :: int

definition date_of :: "datetime \<Rightarrow> date" where
  "date_of d = \<lparr>year = year d, month = month d, day = day d\<rparr>"

definition MINYEAR :: int where "MINYEAR = 1"
definition MAXYEAR :: int where "MAXYEAR = 9999"

definition DAYS_IN_MONTH :: "int list" where
  "DAYS_IN_MONTH = [- 1, 31, 28, 31, 30, 31, 30, 31, 31, 30, 31, 30, 31]"

definition DAYS_BEFORE_MONTH :: "int list" where
  "DAYS_BEFORE_MONTH = [- 1, 0, 31, 59, 90, 120, 151, 181, 212, 243, 273, 304, 334]"

definition is_leap :: "int \<Rightarrow> bool" where
  "is_leap y = (y mod 4 = 0 \<and> (y mod 100 \<noteq> 0 \<or> y mod 400 = 0))"

definition days_before_year :: "int \<Rightarrow> int" where
  "days_before_year yr = (let y = yr - 1 in y * 365 + y div 4 - y div 100 + y div 400)"

definition days_in_month :: "int \<Rightarrow> int \<Rightarrow> int" where
  "days_in_month y m = (if m = 2 \<and> is_leap y then 29 else DAYS_IN_MONTH ! nat m)"

definition days_before_month :: "int \<Rightarrow> int \<Rightarrow> int" where
  "days_before_month y m = DAYS_BEFORE_MONTH ! nat m + (if 2 < m \<and> is_leap y then 1 else 0)"

definition ymd2ord :: "int \<Rightarrow> int \<Rightarrow> int \<Rightarrow> int" where
  "ymd2ord y m d = days_before_year y + days_before_month y m + d"

definition check_date_fields :: "int \<Rightarrow> int \<Rightarrow> int \<Rightarrow> py_error + date" where
  "check_date_fields y m d =
     (if \<not> (MINYEAR \<le> y \<and> y \<le> MAXYEAR) then Inl ValueError
      else if \<not> (1 \<le> m \<and> m \<le> 12) then Inl ValueError
      else if \<not> (1 \<le> d \<and> d \<le> days_in_month y m) then Inl ValueError
      else Inr \<lparr>year = y, month = m, day = d\<rparr>)"

definition check_time_fields :: "int \<Rightarrow> int \<Rightarrow> int \<Rightarrow> int \<Rightarrow> py_error + unit" where
  "check_time_fields h mi s us =
     (if \<not> (0 \<le> h \<and> h \<le> 23) then Inl ValueError
      else if \<not> (0 \<le> mi \<and> mi \<le> 59) then Inl ValueError
      else if \<not> (0 \<le> s \<and> s \<le> 59) then Inl ValueError
      else if \<not> (0 \<le> us \<and> us \<le> 999999) then Inl ValueError
      else Inr ())"

text \<open>The constructor \<open>datetime(year, month, day, hour, minute, second, microsecond)\<close>.\<close>

definition new_datetime :: "int \<Rightarrow> int \<Rightarrow> int \<Rightarrow> int \<Rightarrow> int \<Rightarrow> int \<Rightarrow> int \<Rightarrow> py_error + datetime" where
  "new_datetime y m d h mi s us =
     (case check_date_fields y m d of
        Inl e \<Rightarrow> Inl e
      | Inr _ \<Rightarrow>
          (case check_time_fields h mi s us of
             Inl e \<Rightarrow> Inl e
           | Inr _ \<Rightarrow> Inr \<lparr>year = y, month = m, day = d, hour = h, minute = mi,
                            second = s, microsecond = us\<rparr>))"


definition isoweek1monday :: "int \<Rightarrow> int" where
  "isoweek1monday y =
     (let firstday = ymd2ord y 1 1;
          firstweekday = (firstday + 6) mod 7;
          week1monday = firstday - firstweekday
      in if 3 < firstweekday then week1monday + 7 else week1monday)"

text \<open>\<open>isocalendar\<close> returns the triple (ISO year, ISO week, ISO weekday).\<close>

definition isocalendar :: "'a date_scheme \<Rightarrow> int \<times> int \<times> int" where
  "isocalendar d =
     (let y = year d;
          week1monday = isoweek1monday y;
          today = ymd2ord (year d) (month d) (day d);
          week = (today - week1monday) div 7;
          wday = (today - week1monday) mod 7
      in if week < 0 then
           (let week1monday' = isoweek1monday (y - 1)
            in (y - 1, (today - week1monday') div 7 + 1, (today - week1monday') mod 7 + 1))
         else if 52 \<le> week then
           (if isoweek1monday (y + 1) \<le> today then (y + 1, 1, wday + 1)
            else (y, week + 1, wday + 1))
         else (y, week + 1, wday + 1))"

section \<open>Parsing timestamps: strptime\<close>

text \<open>
  \<open>datetime.strptime\<close> (CPython 3.12, module \<open>_strptime\<close>) turns the format into a regular
  expression, takes the first match that the backtracking matcher finds at the start of
  the data, rejects the data when characters remain after it, and builds the
  \<open>datetime\<close> from the groups. A character class is the list of its characters, an
  alternative a sequence of classes, a group an ordered list of alternatives; a run of
  white space in the format becomes \<open>\s+\<close>.
\<close>

datatype rx_item = Lit char | Spaces | Group char "string list list"

definition digits :: string where
  "digits = ''0123456789''"

definition nonzero :: string where
  "nonzero = ''123456789''"

definition directive :: "char \<Rightarrow> rx_item option" where
  "directive c =
     (if c = CHR ''d'' then
        Some (Group c [[''3'', ''01''], [''12'', digits], [''0'', nonzero], [nonzero], ['' '', nonzero]])
      else if c = CHR ''H'' then Some (Group c [[''2'', ''0123''], [''01'', digits], [digits]])
      else if c = CHR ''m'' then Some (Group c [[''1'', ''012''], [''0'', nonzero], [nonzero]])
      else if c = CHR ''M'' then Some (Group c [[''012345'', digits], [digits]])
      else if c = CHR ''S'' then Some (Group c [[''6'', ''01''], [''012345'', digits], [digits]])
      else if c = CHR ''Y'' then Some (Group c [[digits, digits, digits, digits]])
      else None)"

text \<open>
  \<open>pattern\<close> is \<open>TimeRE.pattern\<close> on the directives above; any other directive is outside
  the model (\<open>None\<close>). None of the formats of the program contains a character that the
  regular expression syntax would need escaped.
\<close>

function pattern :: "string \<Rightarrow> rx_item list option" where
  "pattern [] = Some []"
| "pattern (c # cs) =
     (if c = CHR ''%'' then
        (case cs of
           [] \<Rightarrow> None
         | d # r \<Rightarrow>
             (case directive d of
                None \<Rightarrow> None
              | Some g \<Rightarrow> (case pattern r of None \<Rightarrow> None | Some p \<Rightarrow> Some (g # p))))
      else if isspace c then
        (case pattern (dropWhile isspace cs) of None \<Rightarrow> None | Some p \<Rightarrow> Some (Spaces # p))
      else (case pattern cs of None \<Rightarrow> None | Some p \<Rightarrow> Some (Lit c # p)))"
  by pat_completeness auto
termination
  by (relation "measure length") (auto simp: less_Suc_eq_le length_dropWhile_le)

text \<open>Matching a sequence of classes against a prefix: the matched text and the rest.\<close>

fun match_classes :: "string list \<Rightarrow> string \<Rightarrow> (string \<times> string) option" where
  "match_classes [] s = Some ([], s)"
| "match_classes (cl # cls) [] = None"
| "match_classes (cl # cls) (x # xs) =
     (if x \<in> set cl then
        (case match_classes cls xs of None \<Rightarrow> None | Some (m, r) \<Rightarrow> Some (x # m, r))
      else None)"

text \<open>The alternatives that match, in the order in which the matcher tries them.\<close>

fun match_alts :: "string list list \<Rightarrow> string \<Rightarrow> (string \<times> string) list" where
  "match_alts [] s = []"
| "match_alts (a # as) s =
     (case match_classes a s of None \<Rightarrow> match_alts as s | Some r \<Rightarrow> r # match_alts as s)"

text \<open>\<open>\s+\<close> is greedy: the rests after one or more blanks, the longest run first.\<close>

fun match_spaces :: "string \<Rightarrow> string list" where
  "match_spaces [] = []"
| "match_spaces (x # xs) = (if isspace x then match_spaces xs @ [xs] else [])"

text \<open>All the matches of a pattern at the start of the data, in the matcher's order.\<close>

fun rx_match :: "rx_item list \<Rightarrow> string \<Rightarrow> ((char \<times> string) list \<times> string) list" where
  "rx_match [] s = [([], s)]"
| "rx_match (Lit c # p) s =
     (case s of [] \<Rightarrow> [] | x # xs \<Rightarrow> if x = c then rx_match p xs else [])"
| "rx_match (Spaces # p) s = concat (map (rx_match p) (match_spaces s))"
| "rx_match (Group k alts # p) s =
     concat (map (\<lambda>(v, r). map (\<lambda>(g, e). ((k, v) # g, e)) (rx_match p r)) (match_alts alts s))"

text \<open>\<open>int\<close> on the text of a group: decimal digits, after an optional blank (\<open>%d\<close>).\<close>

definition digit_val :: "char \<Rightarrow> int" where
  "digit_val c = int (of_char c) - 48"

definition int_of_group :: "string \<Rightarrow> int" where
  "int_of_group s = foldl (\<lambda>a c. 10 * a + digit_val c) 0 (dropWhile isspace s)"

definition group_or :: "(char \<times> string) list \<Rightarrow> char \<Rightarrow> int \<Rightarrow> int" where
  "group_or g k dflt = (case map_of g k of None \<Rightarrow> dflt | Some v \<Rightarrow> int_of_group v)"

text \<open>\<open>re.match\<close>: the first match, with its groups and the text that it leaves.\<close>

definition re_match :: "rx_item list \<Rightarrow> string \<Rightarrow> ((char \<times> string) list \<times> string) option" where
  "re_match p s = (case rx_match p s of [] \<Rightarrow> None | found # _ \<Rightarrow> Some found)"

definition strptime :: "string \<Rightarrow> string \<Rightarrow> py_error + datetime" where
  "strptime data_string format =
     (case pattern format of
        None \<Rightarrow> Inl ValueError
      | Some p \<Rightarrow>
          (case re_match p data_string of
             None \<Rightarrow> Inl ValueError
           | Some (g, rest) \<Rightarrow>
               if rest \<noteq> [] then Inl ValueError
               else new_datetime (group_or g CHR ''Y'' 1900) (group_or g CHR ''m'' 1)
                      (group_or g CHR ''d'' 1) (group_or g CHR ''H'' 0) (group_or g CHR ''M'' 0)
                      (group_or g CHR ''S'' 0) 0))"

section \<open>parse_datetime\<close>

text \<open>
  The clock is a parameter: \<open>now\<close> is what \<open>datetime.now()\<close> returns at the call. The loop
  over the three formats is the recursion of \<open>try_formats\<close>; a \<open>ValueError\<close> of
  \<open>strptime\<close> or of the constructor moves on to the next format.
\<close>

fun try_formats :: "string list \<Rightarrow> string \<Rightarrow> py_error + datetime" where
  "try_formats [] s = Inl ValueError"
| "try_formats (fmt # fmts) s =
     (case strptime s fmt of
        Inl _ \<Rightarrow> try_formats fmts s
      | Inr d \<Rightarrow>
          if fmt = ''%Y-%m-%d'' then
            (case new_datetime (year d) (month d) (day d) 0 0 0 0 of
               Inl _ \<Rightarrow> try_formats fmts s
             | Inr d' \<Rightarrow> Inr d')
          else Inr d)"

definition parse_datetime :: "datetime \<Rightarrow> string \<Rightarrow> py_error + datetime" where
  "parse_datetime now s =
     (if lower (strip s) \<in> set [''now'', ''''] then Inr now
      else try_formats [''%Y-%m-%d %H:%M'', ''%Y-%m-%d %H:%M:%S'', ''%Y-%m-%d''] s)"

section \<open>Floats\<close>

text \<open>
  A Python \<open>float\<close> is an IEEE 754 binary64 number: a finite value (the real number it
  denotes), an infinity or a NaN. The sign of a zero is not kept: no operation of the
  program can tell the two zeros apart except printing. Every arithmetic operation
  returns the double nearest to the exact result, ties to the even significand
  (\<open>fl\<close>): 53 significant bits, the least exponent of a unit in the last place
  \<open>-1074\<close>, overflow to an infinity from \<open>2 ^ 1024\<close> on.
\<close>

datatype pyfloat = Finite real | PInf | NInf | NaN

text \<open>\<open>int.bit_length\<close>.\<close>

fun bit_length :: "nat \<Rightarrow> nat" where
  "bit_length n = (if n = 0 then 0 else Suc (bit_length (n div 2)))"

declare bit_length.simps [simp del]

definition pow2 :: "int \<Rightarrow> real" where
  "pow2 k = (if 0 \<le> k then 2 ^ nat k else 1 / 2 ^ nat (- k))"

text \<open>The binary exponent of a positive number: the \<open>k\<close> with \<open>2 ^ k \<le> x < 2 ^ (k + 1)\<close>.\<close>

definition ilog2 :: "real \<Rightarrow> int" where
  "ilog2 x = (if 1 \<le> x then int (bit_length (nat \<lfloor>x\<rfloor>)) - 1
              else - int (bit_length (nat (\<lceil>1 / x\<rceil> - 1))))"

definition round_half_even :: "real \<Rightarrow> int" where
  "round_half_even x =
     (let f = \<lfloor>x\<rfloor>; r = x - of_int f
      in if r < 1 / 2 then f else if 1 / 2 < r then f + 1 else if even f then f else f + 1)"

definition fl :: "real \<Rightarrow> pyfloat" where
  "fl x =
     (if x = 0 then Finite 0
      else
        (let e = max (ilog2 \<bar>x\<bar> - 52) (- 1074);
             y = of_int (round_half_even (x / pow2 e)) * pow2 e
         in if 2 ^ 1024 \<le> y then PInf else if y \<le> - (2 ^ 1024) then NInf else Finite y))"

text \<open>
  \<open>float_of_decimal n k\<close> is the float that Python reads from the decimal numeral
  \<open>n \<times> 10\<^sup>-\<^sup>k\<close>, in a program text or through \<open>float(...)\<close>: the nearest double.
\<close>

definition float_of_decimal :: "int \<Rightarrow> nat \<Rightarrow> pyfloat" where
  "float_of_decimal n k = fl (of_int n / 10 ^ k)"

text \<open>
  The conversion of an \<open>int\<close> operand in \<open>int * float\<close>: the nearest double, or
  \<open>OverflowError\<close> (int too large to convert to float).
\<close>

definition int_to_float :: "int \<Rightarrow> py_error + pyfloat" where
  "int_to_float n = (case fl (of_int n) of Finite r \<Rightarrow> Inr (Finite r) | _ \<Rightarrow> Inl OverflowError)"

fun fneg :: "pyfloat \<Rightarrow> pyfloat" where
  "fneg (Finite a) = Finite (- a)"
| "fneg PInf = NInf"
| "fneg NInf = PInf"
| "fneg NaN = NaN"

fun fadd :: "pyfloat \<Rightarrow> pyfloat \<Rightarrow> pyfloat" where
  "fadd NaN _ = NaN"
| "fadd _ NaN = NaN"
| "fadd (Finite a) (Finite b) = fl (a + b)"
| "fadd (Finite a) PInf = PInf"
| "fadd (Finite a) NInf = NInf"
| "fadd PInf (Finite b) = PInf"
| "fadd NInf (Finite b) = NInf"
| "fadd PInf PInf = PInf"
| "fadd NInf NInf = NInf"
| "fadd PInf NInf = NaN"
| "fadd NInf PInf = NaN"

definition fsub :: "pyfloat \<Rightarrow> pyfloat \<Rightarrow> pyfloat" where
  "fsub a b = fadd a (fneg b)"

text \<open>The product with an infinity: NaN for a zero, else the infinity of the right sign.\<close>

definition inf_times :: "bool \<Rightarrow> pyfloat \<Rightarrow> pyfloat" where
  "inf_times positive x =
     (case x of
        Finite a \<Rightarrow> if a = 0 then NaN else if (0 < a) = positive then PInf else NInf
      | PInf \<Rightarrow> if positive then PInf else NInf
      | NInf \<Rightarrow> if positive then NInf else PInf
      | NaN \<Rightarrow> NaN)"

fun fmul :: "pyfloat \<Rightarrow> pyfloat \<Rightarrow> pyfloat" where
  "fmul NaN _ = NaN"
| "fmul _ NaN = NaN"
| "fmul (Finite a) (Finite b) = fl (a * b)"
| "fmul PInf y = inf_times True y"
| "fmul NInf y = inf_times False y"
| "fmul (Finite a) PInf = inf_times True (Finite a)"
| "fmul (Finite a) NInf = inf_times False (Finite a)"

text \<open>The comparison \<open>a < b\<close>: false as soon as an operand is a NaN.\<close>

fun flt :: "pyfloat \<Rightarrow> pyfloat \<Rightarrow> bool" where
  "flt NaN _ = False"
| "flt _ NaN = False"
| "flt (Finite a) (Finite b) = (a < b)"
| "flt (Finite a) PInf = True"
| "flt (Finite a) NInf = False"
| "flt PInf _ = False"
| "flt NInf (Finite b) = True"
| "flt NInf PInf = True"
| "flt NInf NInf = False"

definition fgt :: "pyfloat \<Rightarrow> pyfloat \<Rightarrow> bool" where
  "fgt a b = flt b a"

text \<open>\<open>a >= b\<close>, also false on a NaN.\<close>

definition fge :: "pyfloat \<Rightarrow> pyfloat \<Rightarrow> bool" where
  "fge a b = (a \<noteq> NaN \<and> b \<noteq> NaN \<and> \<not> flt a b)"

text \<open>
  \<open>round(x, 2)\<close> on a float: an infinity or a NaN is returned as it is; a finite \<open>x\<close> is
  rounded, in its exact value, to the nearest multiple of \<open>1/100\<close> (ties to the even
  multiple), and the result is the double nearest to that decimal.
\<close>

definition round2 :: "pyfloat \<Rightarrow> pyfloat" where
  "round2 x = (case x of Finite r \<Rightarrow> fl (of_int (round_half_even (r * 100)) / 100) | _ \<Rightarrow> x)"

section \<open>Costs and derived fields\<close>

definition hombre :: string where "hombre = ''hombre''"
definition mujer :: string where "mujer = ''mujer''"
definition ninyo :: string where "ninyo = [CHR ''n'', CHR ''i'', CHR 0xF1, CHR ''o'']"

definition COSTS :: "string \<rightharpoonup> pyfloat" where
  "COSTS = [hombre \<mapsto> Finite 35, mujer \<mapsto> Finite 30, ninyo \<mapsto> Finite 22]"

definition VALID_TYPES :: "string set" where
  "VALID_TYPES = dom COSTS"

text \<open>\<open>cantidad * x\<close> for an \<open>int\<close> and a \<open>float\<close>.\<close>

definition int_times :: "int \<Rightarrow> pyfloat \<Rightarrow> py_error + pyfloat" where
  "int_times n x = (case int_to_float n of Inl e \<Rightarrow> Inl e | Inr a \<Rightarrow> Inr (fmul a x))"

definition compute_fields ::
  "string \<Rightarrow> int \<Rightarrow> pyfloat \<Rightarrow> py_error + (pyfloat \<times> pyfloat \<times> pyfloat \<times> pyfloat \<times> bool)" where
  "compute_fields tipo cantidad precio_unitario =
     (case COSTS tipo of
        None \<Rightarrow> Inl KeyError
      | Some costo_unit \<Rightarrow>
          (case int_times cantidad precio_unitario of
             Inl e \<Rightarrow> Inl e
           | Inr total' \<Rightarrow>
               (case int_times cantidad costo_unit of
                  Inl e \<Rightarrow> Inl e
                | Inr inversion \<Rightarrow>
                    (let ganancia = fsub total' inversion;
                         alert = flt precio_unitario costo_unit
                     in Inr (costo_unit, round2 total', round2 inversion, round2 ganancia, alert)))))"

section \<open>The ledger and add_sale\<close>

text \<open>A record of the ledger: the dictionary that \<open>add_sale\<close> builds, key by key.\<close>

record sale =
  datetime :: string
  tipo :: string
  color :: string
  cantidad :: int
  precio_unitario :: pyfloat
  costo_unitario :: pyfloat
  total_venta :: pyfloat
  inversion_recuperada :: pyfloat
  ganancia :: pyfloat
  alerta_precio :: bool

text \<open>
  \<open>strftime('%Y-%m-%d %H:%M:%S')\<close> hands the format to the C library. With glibc,
  \<open>%Y\<close> is the year in decimal with no padding (the year 999 is printed \<open>999\<close>), and
  each of the other fields is padded with zeros to two digits.
\<close>

definition digit_char :: "int \<Rightarrow> char" where
  "digit_char n = char_of (nat (48 + n mod 10))"

fun zero_padded :: "nat \<Rightarrow> int \<Rightarrow> string" where
  "zero_padded 0 n = []"
| "zero_padded (Suc w) n = zero_padded w (n div 10) @ [digit_char n]"

function decimal :: "int \<Rightarrow> string" where
  "decimal n = (if n < 10 then [digit_char n] else decimal (n div 10) @ [digit_char n])"
  by auto
termination
  by (relation "measure nat") auto

declare decimal.simps [simp del]

definition strftime :: "datetime \<Rightarrow> string" where
  "strftime d =
     decimal (year d) @ ''-'' @ zero_padded 2 (month d) @ ''-'' @ zero_padded 2 (day d)
     @ '' '' @ zero_padded 2 (hour d) @ '':'' @ zero_padded 2 (minute d) @ '':''
     @ zero_padded 2 (second d)"

text \<open>
  What \<open>add_sale\<close> prints when it gives up, what it does at the end, and the exception
  that leaves it when nothing catches it.
\<close>

datatype message =
  ErrorFecha | TipoInvalido | CantidadNoPositiva | CantidadInvalida | PrecioNegativo | PrecioInvalido

datatype outcome = Registered sale | Rejected message | Raised py_error

text \<open>
  The state after a call: the ledger in memory, what \<open>save_data\<close> wrote (if it ran), and
  the outcome.
\<close>

record add_state =
  ledger :: "sale list"
  saved :: "sale list option"
  result :: outcome

text \<open>
  The console: the five answers typed at the prompts, in the order of the prompts. The
  library conversions \<open>int(...)\<close> and \<open>float(...)\<close> of a text are parameters, \<open>None\<close> when
  they raise \<open>ValueError\<close>; \<open>now\<close> is the clock.
\<close>

record console =
  fecha_in :: string
  tipo_in :: string
  color_in :: string
  cantidad_in :: string
  precio_in :: string

definition rejected :: "sale list \<Rightarrow> message \<Rightarrow> add_state" where
  "rejected sales m = \<lparr>ledger = sales, saved = None, result = Rejected m\<rparr>"

definition add_sale ::
  "(string \<Rightarrow> int option) \<Rightarrow> (string \<Rightarrow> pyfloat option) \<Rightarrow> datetime \<Rightarrow> console \<Rightarrow> sale list
     \<Rightarrow> add_state" where
  "add_sale py_int py_float now inp sales =
     (case parse_datetime now (strip (fecha_in inp)) of
        Inl _ \<Rightarrow> rejected sales ErrorFecha
      | Inr dt \<Rightarrow>
          (let t = lower (strip (tipo_in inp))
           in if t \<notin> VALID_TYPES then rejected sales TipoInvalido
              else
                (let col = strip (color_in inp)
                 in case py_int (strip (cantidad_in inp)) of
                      None \<Rightarrow> rejected sales CantidadInvalida
                    | Some cant \<Rightarrow>
                        if cant \<le> 0 then rejected sales CantidadNoPositiva
                        else
                          (case py_float (strip (precio_in inp)) of
                             None \<Rightarrow> rejected sales PrecioInvalido
                           | Some precio \<Rightarrow>
                               if flt precio (Finite 0) then rejected sales PrecioNegativo
                               else
                                 (case compute_fields t cant precio of
                                    Inl e \<Rightarrow> \<lparr>ledger = sales, saved = None, result = Raised e\<rparr>
                                  | Inr (costo_unit, total', inversion, gan, alert) \<Rightarrow>
                                      (let record = \<lparr>datetime = strftime dt, tipo = t,
                                             color = col, cantidad = cant,
                                             precio_unitario = round2 precio,
                                             costo_unitario = costo_unit, total_venta = total',
                                             inversion_recuperada = inversion, ganancia = gan,
                                             alerta_precio = alert\<rparr>
                                       in \<lparr>ledger = sales @ [record],
                                            saved = Some (sales @ [record]),
                                            result = Registered record\<rparr>))))))"

section \<open>Summaries\<close>

text \<open>
  \<open>tipo_ganancias\<close> is a \<open>defaultdict(float)\<close>: a dictionary that keeps its keys in the
  order of their first insertion, modelled as an association list with distinct keys.
  \<open>d[k] += v\<close> on a missing key first stores \<open>0.0\<close> under it, at the end.
\<close>

type_synonym pydict = "(string \<times> pyfloat) list"

fun dict_add :: "pydict \<Rightarrow> string \<Rightarrow> pyfloat \<Rightarrow> pydict" where
  "dict_add [] k v = [(k, fadd (Finite 0) v)]"
| "dict_add ((k', w) # d) k v =
     (if k' = k then (k', fadd w v) # d else (k', w) # dict_add d k v)"

text \<open>
  \<open>max(d, key=lambda k: d[k])\<close>: the keys are visited in order, and a key replaces the
  best one so far only when its value is greater (\<open>>\<close>).
\<close>

fun max_from :: "string \<Rightarrow> pyfloat \<Rightarrow> pydict \<Rightarrow> string" where
  "max_from bk bv [] = bk"
| "max_from bk bv ((k, v) # d) = (if fgt v bv then max_from k v d else max_from bk bv d)"

definition max_key :: "pydict \<Rightarrow> string" where
  "max_key d = (case d of [] \<Rightarrow> [] | (k, v) # r \<Rightarrow> max_from k v r)"

type_synonym accum = "pyfloat \<times> pyfloat \<times> pydict"

type_synonym summary = "pyfloat \<times> pyfloat \<times> string option \<times> pydict"

definition STORED_FORMAT :: string where
  "STORED_FORMAT = ''%Y-%m-%d %H:%M:%S''"

text \<open>The loop of \<open>daily_summary\<close>; a timestamp that does not parse raises \<open>ValueError\<close>.\<close>

fun daily_loop :: "date \<Rightarrow> sale list \<Rightarrow> accum \<Rightarrow> py_error + accum" where
  "daily_loop dt [] a = Inr a"
| "daily_loop dt (s # ss) (total_vendido, ganancia_acum, tipo_ganancias) =
     (case strptime (datetime s) STORED_FORMAT of
        Inl e \<Rightarrow> Inl e
      | Inr d \<Rightarrow>
          if date_of d = dt then
            daily_loop dt ss
              (fadd total_vendido (total_venta s), fadd ganancia_acum (ganancia s),
               dict_add tipo_ganancias (tipo s) (ganancia s))
          else daily_loop dt ss (total_vendido, ganancia_acum, tipo_ganancias))"

definition daily_summary :: "sale list \<Rightarrow> date \<Rightarrow> py_error + summary" where
  "daily_summary sales dt =
     (case daily_loop dt sales (Finite 0, Finite 0, []) of
        Inl e \<Rightarrow> Inl e
      | Inr (total_vendido, ganancia_acum, tipo_ganancias) \<Rightarrow>
          (let tipo_mas_rentable =
                 (if tipo_ganancias \<noteq> [] then Some (max_key tipo_ganancias) else None)
           in Inr (round2 total_vendido, round2 ganancia_acum, tipo_mas_rentable,
                   tipo_ganancias)))"

text \<open>The loop of \<open>weekly_summary\<close>, on the ISO year and week of the timestamp.\<close>

fun weekly_loop :: "int \<Rightarrow> int \<Rightarrow> sale list \<Rightarrow> accum \<Rightarrow> py_error + accum" where
  "weekly_loop yr week [] a = Inr a"
| "weekly_loop yr week (s # ss) (total_vendido, ganancia_acum, tipo_ganancias) =
     (case strptime (datetime s) STORED_FORMAT of
        Inl e \<Rightarrow> Inl e
      | Inr dt \<Rightarrow>
          (case isocalendar dt of
             (y, w, _) \<Rightarrow>
               if y = yr \<and> w = week then
                 weekly_loop yr week ss
                   (fadd total_vendido (total_venta s), fadd ganancia_acum (ganancia s),
                    dict_add tipo_ganancias (tipo s) (ganancia s))
               else weekly_loop yr week ss (total_vendido, ganancia_acum, tipo_ganancias)))"

definition weekly_summary :: "sale list \<Rightarrow> int \<Rightarrow> int \<Rightarrow> py_error + summary" where
  "weekly_summary sales yr week =
     (case weekly_loop yr week sales (Finite 0, Finite 0, []) of
        Inl e \<Rightarrow> Inl e
      | Inr (total_vendido, ganancia_acum, tipo_ganancias) \<Rightarrow>
          (let tipo_mas_rentable =
                 (if tipo_ganancias \<noteq> [] then Some (max_key tipo_ganancias) else None)
           in Inr (round2 total_vendido, round2 ganancia_acum, tipo_mas_rentable,
                   tipo_ganancias)))"

section \<open>The specification's reading of the derived fields\<close>

text \<open>
  The operation \<open>deriveFields\<close> as the specification words it: \<open>total\<close> and
  \<open>investmentRecovered\<close> are rounded first, and \<open>profit\<close> is the rounded difference of the
  two rounded values. It is compared with \<open>compute_fields\<close> below.
\<close>

definition spec_deriveFields ::
  "string \<Rightarrow> int \<Rightarrow> pyfloat \<Rightarrow> py_error + (pyfloat \<times> pyfloat \<times> pyfloat \<times> pyfloat \<times> bool)" where
  "spec_deriveFields category quantity unitPrice =
     (case COSTS category of
        None \<Rightarrow> Inl KeyError
      | Some unitCost \<Rightarrow>
          (case int_times quantity unitPrice of
             Inl e \<Rightarrow> Inl e
           | Inr qp \<Rightarrow>
               (case int_times quantity unitCost of
                  Inl e \<Rightarrow> Inl e
                | Inr qc \<Rightarrow>
                    (let total' = round2 qp;
                         investmentRecovered = round2 qc;
                         profit = round2 (fsub total' investmentRecovered);
                         priceAlert = flt unitPrice unitCost
                     in Inr (unitCost, total', investmentRecovered, profit, priceAlert)))))"

section \<open>The ISO week in the words of the specification\<close>




section \<open>The accepted timestamps in the words of the specification\<close>



section \<open>demo_data\<close>

text \<open>
  \<open>demo_data\<close> appends four example records, each completed with the fields that
  \<open>compute_fields\<close> derives (the price is stored as given).
\<close>

definition ejemplo :: "(string \<times> string \<times> string \<times> int \<times> pyfloat) list" where
  "ejemplo =
     [(''2025-12-29 10:15:00'', hombre, ''negro'', 3, Finite 40),
      (''2025-12-29 12:30:00'', mujer, ''rojo'', 2, Finite 28),
      (''2025-12-28 09:00:00'', ninyo, ''azul'', 4, Finite 25),
      (''2025-12-30 14:00:00'', hombre, ''gris'', 1, Finite 30)]"

fun demo_loop ::
  "(string \<times> string \<times> string \<times> int \<times> pyfloat) list \<Rightarrow> sale list \<Rightarrow> py_error + sale list" where
  "demo_loop [] sales = Inr sales"
| "demo_loop ((dt, t, col, cant, precio) # es) sales =
     (case compute_fields t cant precio of
        Inl e \<Rightarrow> Inl e
      | Inr (costo_unit, total', inversion, gan, alert) \<Rightarrow>
          demo_loop es
            (sales @ [\<lparr>datetime = dt, tipo = t, color = col, cantidad = cant,
                       precio_unitario = precio, costo_unitario = costo_unit,
                       total_venta = total', inversion_recuperada = inversion,
                       ganancia = gan, alerta_precio = alert\<rparr>]))"

definition demo_data :: "sale list \<Rightarrow> py_error + sale list" where
  "demo_data sales = demo_loop ejemplo sales"

section \<open>Notions used to state the properties of the summaries\<close>

text \<open>
  A record \<open>parses\<close> when its stored timestamp is accepted by \<open>strptime\<close> with the stored
  format; \<open>on_day\<close> and \<open>in_week\<close> are the two conditions under which the loops take a
  record into account.
\<close>

definition parses :: "sale \<Rightarrow> bool" where
  "parses s = (case strptime (datetime s) STORED_FORMAT of Inl _ \<Rightarrow> False | Inr _ \<Rightarrow> True)"

definition on_day :: "date \<Rightarrow> sale \<Rightarrow> bool" where
  "on_day dt s =
     (case strptime (datetime s) STORED_FORMAT of Inl _ \<Rightarrow> False | Inr d \<Rightarrow> date_of d = dt)"

definition in_week :: "int \<Rightarrow> int \<Rightarrow> sale \<Rightarrow> bool" where
  "in_week yr week s =
     (case strptime (datetime s) STORED_FORMAT of
        Inl _ \<Rightarrow> False
      | Inr d \<Rightarrow> (case isocalendar d of (y, w, _) \<Rightarrow> y = yr \<and> w = week))"

text \<open>
  The sum of a list of floats as the loops compute it: from \<open>0.0\<close>, adding the elements
  one by one from the left, each addition rounded to the nearest double.
\<close>

definition fsum :: "pyfloat list \<Rightarrow> pyfloat" where
  "fsum xs = foldl fadd (Finite 0) xs"

text \<open>The profits of the records of one category, in the order of the records.\<close>

definition profits_of :: "string \<Rightarrow> sale list \<Rightarrow> pyfloat list" where
  "profits_of k xs = map ganancia (filter (\<lambda>s. tipo s = k) xs)"

text \<open>
  What both loops do with a record that they take into account, and the summary of a
  list of records all taken into account.
\<close>

definition accumulate :: "accum \<Rightarrow> sale \<Rightarrow> accum" where
  "accumulate a s =
     (case a of
        (total_vendido, ganancia_acum, tipo_ganancias) \<Rightarrow>
          (fadd total_vendido (total_venta s), fadd ganancia_acum (ganancia s),
           dict_add tipo_ganancias (tipo s) (ganancia s)))"

definition summarize :: "sale list \<Rightarrow> summary" where
  "summarize xs =
     (case foldl accumulate (Finite 0, Finite 0, []) xs of
        (total_vendido, ganancia_acum, tipo_ganancias) \<Rightarrow>
          (round2 total_vendido, round2 ganancia_acum,
           if tipo_ganancias \<noteq> [] then Some (max_key tipo_ganancias) else None,
           tipo_ganancias))"

text \<open>The dictionary after the loop has taken the records \<open>xs\<close> into account.\<close>

abbreviation (input) dict_loop :: "pydict \<Rightarrow> sale list \<Rightarrow> pydict" where
  "dict_loop d xs \<equiv> foldl (\<lambda>d s. dict_add d (tipo s) (ganancia s)) d xs"

section \<open>Example inputs\<close>

text \<open>
  The examples below type a few texts at the prompts. On those texts the two conversions
  return what \<open>int(...)\<close> and \<open>float(...)\<close> return in Python (\<open>None\<close> where Python raises
  \<open>ValueError\<close>, as for \<open>abc\<close>); the examples apply them to no other text.
\<close>

definition example_int :: "string \<Rightarrow> int option" where
  "example_int s =
     (if s = ''4'' then Some 4 else if s = ''3'' then Some 3 else if s = ''0'' then Some 0
      else None)"

definition example_float :: "string \<Rightarrow> pyfloat option" where
  "example_float s =
     (if s = ''0.125'' then Some (Finite (1 / 8)) else if s = ''-5'' then Some (Finite (- 5))
      else if s = ''40'' then Some (Finite 40) else if s = ''nan'' then Some NaN
      else None)"

definition example_now :: datetime where
  "example_now = \<lparr>year = 2026, month = 11, day = 4, hour = 9, minute = 30, second = 15,
                   microsecond = 250000\<rparr>"

definition example_console :: "string \<Rightarrow> string \<Rightarrow> string \<Rightarrow> console" where
  "example_console t c p =
     \<lparr>fecha_in = ''2025-12-29 10:15'', tipo_in = t, color_in = ''negro'', cantidad_in = c,
      precio_in = p\<rparr>"

text \<open>The ledger that \<open>demo_data\<close> builds from the empty one (see \<open>demo_data_Nil\<close> below).\<close>

definition demo_ledger :: "sale list" where
  "demo_ledger =
     [\<lparr>datetime = ''2025-12-29 10:15:00'', tipo = hombre, color = ''negro'', cantidad = 3,
       precio_unitario = Finite 40, costo_unitario = Finite 35, total_venta = Finite 120,
       inversion_recuperada = Finite 105, ganancia = Finite 15, alerta_precio = False\<rparr>,
      \<lparr>datetime = ''2025-12-29 12:30:00'', tipo = mujer, color = ''rojo'', cantidad = 2,
       precio_unitario = Finite 28, costo_unitario = Finite 30, total_venta = Finite 56,
       inversion_recuperada = Finite 60, ganancia = Finite (- 4), alerta_precio = True\<rparr>,
      \<lparr>datetime = ''2025-12-28 09:00:00'', tipo = ninyo, color = ''azul'', cantidad = 4,
       precio_unitario = Finite 25, costo_unitario = Finite 22, total_venta = Finite 100,
       inversion_recuperada = Finite 88, ganancia = Finite 12, alerta_precio = False\<rparr>,
      \<lparr>datetime = ''2025-12-30 14:00:00'', tipo = hombre, color = ''gris'', cantidad = 1,
       precio_unitario = Finite 30, costo_unitario = Finite 35, total_venta = Finite 30,
       inversion_recuperada = Finite 35, ganancia = Finite (- 5), alerta_precio = True\<rparr>]"

text \<open>
  The ledger after two sessions of \<open>add_sale\<close> on the empty ledger, the first with the
  price \<open>nan\<close> (see \<open>nan_sessions\<close> below).
\<close>

definition nan_ledger :: "sale list" where
  "nan_ledger =
     [\<lparr>datetime = ''2025-12-29 10:15:00'', tipo = ''hombre'', color = ''negro'', cantidad = 3,
       precio_unitario = NaN, costo_unitario = Finite 35, total_venta = NaN,
       inversion_recuperada = Finite 105, ganancia = NaN, alerta_precio = False\<rparr>,
      \<lparr>datetime = ''2025-12-29 10:15:00'', tipo = ''mujer'', color = ''negro'', cantidad = 3,
       precio_unitario = Finite 40, costo_unitario = Finite 30, total_venta = Finite 120,
       inversion_recuperada = Finite 90, ganancia = Finite 30, alerta_precio = False\<rparr>]"

text \<open>
  A ledger of two records of one day whose sums are not multiples of \<open>0.01\<close>: the totals
  \<open>0.1\<close> and \<open>0.2\<close> add up to \<open>0.30000000000000004\<close>, and the profits \<open>0.004\<close> and
  \<open>0.004\<close> (with more than two decimals, as a ledger file written by hand may hold
  them) add up to \<open>0.008\<close>.
\<close>

definition cents_ledger :: "sale list" where
  "cents_ledger =
     [\<lparr>datetime = ''2025-12-29 10:15:00'', tipo = hombre, color = ''negro'', cantidad = 1,
       precio_unitario = float_of_decimal 1 1, costo_unitario = Finite 35,
       total_venta = float_of_decimal 1 1, inversion_recuperada = Finite 35,
       ganancia = float_of_decimal 4 3, alerta_precio = True\<rparr>,
      \<lparr>datetime = ''2025-12-29 12:30:00'', tipo = hombre, color = ''rojo'', cantidad = 1,
       precio_unitario = float_of_decimal 2 1, costo_unitario = Finite 35,
       total_venta = float_of_decimal 2 1, inversion_recuperada = Finite 35,
       ganancia = float_of_decimal 4 3, alerta_precio = True\<rparr>]"

text \<open>
  A session of \<open>add_sale\<close> that dates a sale in the year 999, and the ledger that it leaves
  from the empty one (see \<open>year999_session\<close> below).
\<close>

definition year999_console :: console where
  "year999_console =
     \<lparr>fecha_in = ''0999-01-01 10:00'', tipo_in = ''hombre'', color_in = ''negro'',
      cantidad_in = ''3'', precio_in = ''40''\<rparr>"

definition year999_ledger :: "sale list" where
  "year999_ledger =
     [\<lparr>datetime = ''999-01-01 10:00:00'', tipo = ''hombre'', color = ''negro'', cantidad = 3,
       precio_unitario = Finite 40, costo_unitario = Finite 35, total_venta = Finite 120,
       inversion_recuperada = Finite 105, ganancia = Finite 15, alerta_precio = False\<rparr>]"

section \<open>Evaluating the model\<close>

text \<open>
  The float operations are evaluated on numerals by rewriting with their definitions.
\<close>

lemmas fl_eval = fl_def ilog2_def pow2_def round_half_even_def bit_length.simps Let_def

lemma VALID_TYPES_eq: "VALID_TYPES = {hombre, mujer, ninyo}"
  by (auto simp: VALID_TYPES_def COSTS_def hombre_def mujer_def ninyo_def split: if_splits)

lemma COSTS_hombre: "COSTS hombre = Some (Finite 35)"
  by (simp add: COSTS_def hombre_def mujer_def ninyo_def)
lemma COSTS_mujer: "COSTS mujer = Some (Finite 30)"
  by (simp add: COSTS_def hombre_def mujer_def ninyo_def)
lemma COSTS_ninyo: "COSTS ninyo = Some (Finite 22)"
  by (simp add: COSTS_def hombre_def mujer_def ninyo_def)

lemma compute_fields_eq:
  assumes "COSTS t = Some c" and "int_to_float n = Inr q"
  shows "compute_fields t n p =
    Inr (c, round2 (fmul q p), round2 (fmul q c),
         round2 (fsub (fmul q p) (fmul q c)), flt p c)"
  using assms by (simp add: compute_fields_def int_times_def Let_def)


lemma int_to_float_1: "int_to_float 1 = Inr (Finite 1)"
  by (simp add: int_to_float_def fl_eval)
lemma int_to_float_3: "int_to_float 3 = Inr (Finite 3)"
  by (simp add: int_to_float_def fl_eval)
lemma int_to_float_0: "int_to_float 0 = Inr (Finite 0)"
  by (simp add: int_to_float_def fl_eval)

lemma float_0005: "float_of_decimal 5 3 = Finite (5764607523034235 / 1152921504606846976)"
  by (simp add: float_of_decimal_def fl_eval)
lemma float_001: "float_of_decimal 1 2 = Finite (5764607523034235 / 576460752303423488)"
  by (simp add: float_of_decimal_def fl_eval)

lemma spec_deriveFields_eq:
  assumes "COSTS t = Some c" and "int_to_float n = Inr q"
  shows "spec_deriveFields t n p =
    Inr (c, round2 (fmul q p), round2 (fmul q c),
         round2 (fsub (round2 (fmul q p)) (round2 (fmul q c))), flt p c)"
  using assms by (simp add: spec_deriveFields_def int_times_def Let_def)

lemma float_m2999: "float_of_decimal (- 2999) 2 = Finite (- 8441434551552573 / 281474976710656)"
  by (simp add: float_of_decimal_def fl_eval)

section \<open>Quantities that convert to a float\<close>

text \<open>
  An integer below \<open>2 ^ 1023\<close> in absolute value converts to a finite float: its
  binary exponent is at most 1022, and rounding to 53 bits cannot carry it beyond
  \<open>2 ^ 1023\<close>.
\<close>

lemma pow2_powi: "pow2 k = 2 powi k"
  by (simp add: pow2_def power_int_def power_one_over [symmetric] inverse_eq_divide)

lemma pow2_pos: "0 < pow2 k"
  by (simp add: pow2_powi)

lemma pow2_add: "pow2 (a + b) = pow2 a * pow2 b"
  by (simp add: pow2_powi power_int_add)

lemma pow2_mono: "a \<le> b \<Longrightarrow> pow2 a \<le> pow2 b"
  by (simp add: pow2_powi power_int_increasing)

lemma pow2_nat: "0 \<le> k \<Longrightarrow> pow2 k = 2 ^ nat k"
  by (simp add: pow2_def)

lemma less_double_half: "(n::nat) < 2 * (n div 2 + 1)"
proof -
  have "n = 2 * q + r \<Longrightarrow> r < 2 \<Longrightarrow> n < 2 * (q + 1)" for q r :: nat
    by simp
  from this [of "n div 2" "n mod 2"] show ?thesis by simp
qed

lemma bit_length_bounds:
  "0 < n \<Longrightarrow> 2 ^ (bit_length n - 1) \<le> n \<and> n < 2 ^ bit_length n"
proof (induction n rule: bit_length.induct)
  case (1 n)
  show ?case
  proof (cases "n div 2 = 0")
    case True
    with "1.prems" have "n = 1" by (simp add: div_eq_0_iff)
    then show ?thesis by (simp add: bit_length.simps)
  next
    case False
    then have m: "0 < n div 2" by simp
    from "1.prems" have n0: "n \<noteq> 0" by simp
    from "1.IH" [OF n0 m]
    have ih: "2 ^ (bit_length (n div 2) - 1) \<le> n div 2" "n div 2 < 2 ^ bit_length (n div 2)"
      by simp_all
    have bl: "bit_length n = Suc (bit_length (n div 2))"
      using n0 by (subst bit_length.simps) simp
    have pos: "0 < bit_length (n div 2)"
      using m by (subst bit_length.simps) simp
    then have e: "2 ^ bit_length (n div 2) = (2::nat) * 2 ^ (bit_length (n div 2) - 1)"
      by (cases "bit_length (n div 2)") simp_all
    have lo: "2 ^ bit_length (n div 2) \<le> n"
    proof -
      have "(2::nat) * 2 ^ (bit_length (n div 2) - 1) \<le> 2 * (n div 2)" using ih(1) by simp
      also have "\<dots> \<le> n" by simp
      finally show ?thesis by (simp add: e)
    qed
    have hi: "n < 2 * 2 ^ bit_length (n div 2)"
    proof -
      have "n < 2 * (n div 2 + 1)" by (rule less_double_half)
      also have "\<dots> \<le> 2 * 2 ^ bit_length (n div 2)" using ih(2) by simp
      finally show ?thesis .
    qed
    show ?thesis using lo hi by (simp add: bl)
  qed
qed

lemma ilog2_bounds:
  assumes "1 \<le> x"
  shows "0 \<le> ilog2 x" and "pow2 (ilog2 x) \<le> x" and "x < pow2 (ilog2 x + 1)"
proof -
  define n where "n = nat \<lfloor>x\<rfloor>"
  have n: "0 < n" using assms by (simp add: n_def)
  have nx: "real n \<le> x" "x < real n + 1"
    using assms by (simp_all add: n_def)
  have i: "ilog2 x = int (bit_length n) - 1"
    using assms by (simp add: ilog2_def n_def)
  from bit_length_bounds [OF n]
  have b: "2 ^ (bit_length n - 1) \<le> n" "n < 2 ^ bit_length n" by simp_all
  have pos: "0 < bit_length n" using n by (subst bit_length.simps) simp
  show 0: "0 \<le> ilog2 x" using pos by (simp add: i)
  have k: "nat (ilog2 x) = bit_length n - 1" using pos by (simp add: i)
  have "pow2 (ilog2 x) = 2 ^ (bit_length n - 1)" using 0 by (simp add: pow2_nat k)
  also have "\<dots> \<le> real n"
  proof -
    from b(1) have "real (2 ^ (bit_length n - 1)) \<le> real n" by (rule of_nat_mono)
    then show ?thesis by simp
  qed
  finally show "pow2 (ilog2 x) \<le> x" using nx(1) by simp
  have k1: "nat (ilog2 x + 1) = bit_length n" using pos by (simp add: i)
  have "real n + 1 \<le> 2 ^ bit_length n"
  proof -
    from b(2) have "n + 1 \<le> 2 ^ bit_length n" by simp
    then have "real (n + 1) \<le> real (2 ^ bit_length n)" by (rule of_nat_mono)
    then show ?thesis by simp
  qed
  also have "\<dots> = pow2 (ilog2 x + 1)" using 0 by (simp add: pow2_nat k1)
  finally show "x < pow2 (ilog2 x + 1)" using nx(2) by simp
qed

lemma round_half_even_bounds:
  "\<lfloor>x\<rfloor> \<le> round_half_even x" "round_half_even x \<le> \<lceil>x\<rceil>"
proof -
  show "\<lfloor>x\<rfloor> \<le> round_half_even x" by (simp add: round_half_even_def Let_def)
  have "\<lfloor>x\<rfloor> + 1 \<le> \<lceil>x\<rceil>" if "x - of_int \<lfloor>x\<rfloor> \<noteq> 0"
    using that by (simp add: ceiling_altdef)
  moreover have "\<lfloor>x\<rfloor> \<le> \<lceil>x\<rceil>" by (rule floor_le_ceiling)
  ultimately show "round_half_even x \<le> \<lceil>x\<rceil>"
    by (auto simp: round_half_even_def Let_def)
qed

lemma fl_finite:
  assumes "\<bar>x\<bar> < 2 ^ 1023" and "1 \<le> \<bar>x\<bar>"
  shows "\<exists>r. fl x = Finite r"
proof -
  define k where "k = ilog2 \<bar>x\<bar>"
  from ilog2_bounds [OF assms(2)]
  have k: "0 \<le> k" "pow2 k \<le> \<bar>x\<bar>" "\<bar>x\<bar> < pow2 (k + 1)" by (simp_all add: k_def)
  define e where "e = max (k - 52) (- 1074)"
  have e: "e = k - 52" using k(1) by (simp add: e_def)
  define z where "z = x / pow2 e"
  define y where "y = of_int (round_half_even z) * pow2 e"
  have k1023: "k + 1 \<le> 1023"
  proof (rule ccontr)
    assume "\<not> k + 1 \<le> 1023"
    then have "1023 \<le> k" by simp
    then have "pow2 1023 \<le> pow2 k" by (rule pow2_mono)
    with k(2) assms(1) show False by (simp add: pow2_def)
  qed
  have p53: "pow2 (k + 1) = 2 ^ 53 * pow2 e"
  proof -
    have "k + 1 = 53 + e" by (simp add: e)
    then have "pow2 (k + 1) = pow2 53 * pow2 e" by (simp only: pow2_add)
    then show ?thesis by (simp add: pow2_def)
  qed
  have zb: "\<bar>z\<bar> < 2 ^ 53"
  proof -
    have "\<bar>z\<bar> = \<bar>x\<bar> / pow2 e" using pow2_pos [of e] by (simp add: z_def)
    also have "\<dots> < 2 ^ 53" using k(3) pow2_pos [of e] by (simp add: p53 pos_divide_less_eq)
    finally show ?thesis .
  qed
  have rb: "\<bar>real_of_int (round_half_even z)\<bar> \<le> 2 ^ 53"
  proof -
    have "z \<le> 2 ^ 53" "- (2 ^ 53) \<le> z" using zb by (simp_all add: abs_less_iff)
    then have "\<lceil>z\<rceil> \<le> 2 ^ 53" "- (2 ^ 53) \<le> \<lfloor>z\<rfloor>"
      by (simp_all add: ceiling_le_iff le_floor_iff)
    with round_half_even_bounds [of z]
    have "round_half_even z \<le> 2 ^ 53" "- (2 ^ 53) \<le> round_half_even z" by linarith+
    then have "real_of_int (round_half_even z) \<le> real_of_int (2 ^ 53)"
      "real_of_int (- (2 ^ 53)) \<le> real_of_int (round_half_even z)"
      by (simp_all only: of_int_le_iff)
    then show ?thesis by (simp add: abs_le_iff)
  qed
  have yb: "\<bar>y\<bar> < 2 ^ 1024"
  proof -
    have "\<bar>y\<bar> = \<bar>real_of_int (round_half_even z)\<bar> * pow2 e"
      using pow2_pos [of e] by (simp add: y_def abs_mult)
    also have "\<dots> \<le> 2 ^ 53 * pow2 e"
      using rb pow2_pos [of e] by (simp add: mult_right_mono)
    also have "\<dots> = pow2 (k + 1)" by (simp add: p53)
    also have "\<dots> \<le> pow2 1023" using k1023 by (rule pow2_mono)
    also have "\<dots> < 2 ^ 1024" by (simp add: pow2_def)
    finally show ?thesis .
  qed
  have x0: "x \<noteq> 0" using assms(2) by auto
  have "fl x = Finite y"
    using yb x0 by (simp add: fl_def Let_def k_def [symmetric] e_def [symmetric] z_def [symmetric]
        y_def [symmetric] abs_less_iff)
  then show ?thesis by blast
qed

lemma int_to_float_in_range:
  assumes "\<bar>n\<bar> < 2 ^ 1023"
  shows "\<exists>r. int_to_float n = Inr (Finite r)"
proof (cases "n = 0")
  case True
  then show ?thesis by (simp add: int_to_float_def fl_def)
next
  case False
  then have 1: "1 \<le> \<bar>real_of_int n\<bar>" by (simp add: abs_if)
  have "real_of_int \<bar>n\<bar> < real_of_int (2 ^ 1023)" using assms by (simp only: of_int_less_iff)
  then have 2: "\<bar>real_of_int n\<bar> < 2 ^ 1023" by simp
  from fl_finite [OF 2 1] show ?thesis by (auto simp: int_to_float_def)
qed

section \<open>Derived fields\<close>

text \<open>
  Claim C1, as amended. For every category of the table and every quantity that Python
  can convert to a float (whatever its sign, and for every price), \<open>compute_fields\<close>
  returns the fixed cost of the category (35, 30 and 22), \<open>round(quantity * price, 2)\<close>,
  \<open>round(quantity * cost, 2)\<close>, the price alert, and as profit the \<^emph>\<open>unrounded\<close>
  difference \<open>quantity * price - quantity * cost\<close> rounded once:
  the operands of the subtraction are not rounded first. Every quantity smaller than
  \<open>2 ^ 1023\<close> in absolute value converts to a float.
\<close>

theorem compute_fields_derived_values:
  assumes "t \<in> VALID_TYPES"
  shows "\<exists>c. COSTS t = Some c
           \<and> (t = hombre \<longrightarrow> c = Finite 35) \<and> (t = mujer \<longrightarrow> c = Finite 30)
           \<and> (t = ninyo \<longrightarrow> c = Finite 22)
           \<and> (\<forall>q. int_to_float n = Inr q \<longrightarrow>
                  compute_fields t n p =
                    Inr (c, round2 (fmul q p), round2 (fmul q c),
                         round2 (fsub (fmul q p) (fmul q c)), flt p c))
           \<and> (\<bar>n\<bar> < 2 ^ 1023 \<longrightarrow> (\<exists>q. int_to_float n = Inr q))"
proof -
  from assms obtain c where c: "COSTS t = Some c"
    by (auto simp: VALID_TYPES_def)
  have "t = hombre \<longrightarrow> c = Finite 35" "t = mujer \<longrightarrow> c = Finite 30" "t = ninyo \<longrightarrow> c = Finite 22"
    using c by (auto simp: COSTS_hombre COSTS_mujer COSTS_ninyo)
  moreover have "\<forall>q. int_to_float n = Inr q \<longrightarrow>
                  compute_fields t n p =
                    Inr (c, round2 (fmul q p), round2 (fmul q c),
                         round2 (fsub (fmul q p) (fmul q c)), flt p c)"
    using compute_fields_eq [OF c] by blast
  moreover have "\<bar>n\<bar> < 2 ^ 1023 \<longrightarrow> (\<exists>q. int_to_float n = Inr q)"
    using int_to_float_in_range [of n] by blast
  ultimately show ?thesis using c by blast
qed

text \<open>
  The theorem at the scenario of the specification: category \<open>hombre\<close>, quantity 3, price
  40 give cost 35, total 120, investment 105, profit 15 and no alert.
\<close>

theorem compute_fields_derived_values_witness:
  "hombre \<in> VALID_TYPES \<and> int_to_float 3 = Inr (Finite 3)
   \<and> compute_fields hombre 3 (Finite 40) = Inr (Finite 35, Finite 120, Finite 105, Finite 15, False)"
proof -
  have v: "hombre \<in> VALID_TYPES" by (simp add: VALID_TYPES_eq)
  have e1: "round2 (fmul (Finite 3) (Finite 40)) = Finite 120"
    by (simp add: round2_def fl_eval)
  have e2: "round2 (fmul (Finite 3) (Finite 35)) = Finite 105"
    by (simp add: round2_def fl_eval)
  have e3: "round2 (fsub (fmul (Finite 3) (Finite 40)) (fmul (Finite 3) (Finite 35))) = Finite 15"
    by (simp add: round2_def fsub_def fl_eval)
  from compute_fields_derived_values [OF v, of 3 "Finite 40"] int_to_float_3
  have "compute_fields hombre 3 (Finite 40) =
          Inr (Finite 35, round2 (fmul (Finite 3) (Finite 40)), round2 (fmul (Finite 3) (Finite 35)),
               round2 (fsub (fmul (Finite 3) (Finite 40)) (fmul (Finite 3) (Finite 35))), False)"
    by (auto simp del: fmul.simps simp add: COSTS_hombre)
  then show ?thesis using v int_to_float_3 by (simp only: e1 e2 e3 simp_thms)
qed

text \<open>
  Claim C1 as stated fails. For category \<open>mujer\<close>, quantity 1 and the price \<open>0.005\<close>
  the program computes \<open>round(0.005 - 30.0, 2)\<close>, which is \<open>-30.0\<close> (the difference is
  the double just below \<open>-29.995\<close>), whereas rounding the total first, as the claim
  words it, gives \<open>round(0.01 - 30.0, 2) = -29.99\<close>.
\<close>

theorem deriveFields_rounding_order_counterexample:
  "(0::int) < 1 \<and> fge (float_of_decimal 5 3) (Finite 0)
   \<and> compute_fields mujer 1 (float_of_decimal 5 3) =
       Inr (Finite 30, float_of_decimal 1 2, Finite 30, Finite (- 30), True)
   \<and> spec_deriveFields mujer 1 (float_of_decimal 5 3) =
       Inr (Finite 30, float_of_decimal 1 2, Finite 30, float_of_decimal (- 2999) 2, True)
   \<and> compute_fields mujer 1 (float_of_decimal 5 3) \<noteq> spec_deriveFields mujer 1 (float_of_decimal 5 3)"
proof -
  let ?p = "Finite (5764607523034235 / 1152921504606846976)"
  have e1: "round2 (fmul (Finite 1) ?p) = Finite (5764607523034235 / 576460752303423488)"
    by (simp add: round2_def fl_eval)
  have e2: "round2 (fmul (Finite 1) (Finite 30)) = Finite 30"
    by (simp add: round2_def fl_eval)
  have e3: "round2 (fsub (fmul (Finite 1) ?p) (fmul (Finite 1) (Finite 30))) = Finite (- 30)"
    by (simp add: round2_def fsub_def fl_eval)
  have e4: "round2 (fsub (Finite (5764607523034235 / 576460752303423488)) (Finite 30))
            = Finite (- 8441434551552573 / 281474976710656)"
    by (simp add: round2_def fsub_def fl_eval)
  have c: "compute_fields mujer 1 ?p = Inr (Finite 30, Finite (5764607523034235 / 576460752303423488), Finite 30, Finite (- 30), True)"
    unfolding compute_fields_eq [OF COSTS_mujer int_to_float_1] e1 e2 e3 by simp
  have s: "spec_deriveFields mujer 1 ?p = Inr (Finite 30, Finite (5764607523034235 / 576460752303423488), Finite 30, Finite (- 8441434551552573 / 281474976710656), True)"
    unfolding spec_deriveFields_eq [OF COSTS_mujer int_to_float_1] e1 e2 e4 by simp
  show ?thesis
    by (simp add: float_0005 float_001 float_m2999 c s fge_def)
qed

text \<open>
  Claim C7. Whenever \<open>compute_fields\<close> returns, its flag is the strict comparison of the
  price with the fixed cost of the category, so a price equal to the cost is not flagged;
  and it does return for every category of the table and every quantity that converts to
  a float, in particular every quantity smaller than \<open>2 ^ 1023\<close> in absolute value.
\<close>

theorem price_alert_strict:
  "(compute_fields t n p = Inr (c, tot, iv, g, alert) \<longrightarrow>
      COSTS t = Some c \<and> (alert \<longleftrightarrow> flt p c) \<and> (p = c \<longrightarrow> \<not> alert))
   \<and> (t \<in> VALID_TYPES \<longrightarrow> int_to_float n = Inr q \<longrightarrow>
        (\<exists>c' tot' iv' g'. compute_fields t n p = Inr (c', tot', iv', g', flt p c')))
   \<and> (t \<in> VALID_TYPES \<longrightarrow> \<bar>n\<bar> < 2 ^ 1023 \<longrightarrow>
        (\<exists>c' tot' iv' g'. compute_fields t n p = Inr (c', tot', iv', g', flt p c')))"
proof -
  have irrefl: "\<not> flt x x" for x by (cases x) auto
  have a: "compute_fields t n p = Inr (c, tot, iv, g, alert) \<longrightarrow>
      COSTS t = Some c \<and> (alert \<longleftrightarrow> flt p c) \<and> (p = c \<longrightarrow> \<not> alert)"
    using irrefl by (auto simp: compute_fields_def Let_def split: option.splits sum.splits)
  have b: "t \<in> VALID_TYPES \<longrightarrow> int_to_float n = Inr q' \<longrightarrow>
        (\<exists>c' tot' iv' g'. compute_fields t n p = Inr (c', tot', iv', g', flt p c'))" for q'
    by (auto simp: VALID_TYPES_def compute_fields_eq)
  have c: "t \<in> VALID_TYPES \<longrightarrow> \<bar>n\<bar> < 2 ^ 1023 \<longrightarrow>
        (\<exists>c' tot' iv' g'. compute_fields t n p = Inr (c', tot', iv', g', flt p c'))"
    using b int_to_float_in_range [of n] by blast
  from a b c show ?thesis by blast
qed

text \<open>
  The theorem at price 35 (equal to the cost of \<open>hombre\<close>: no alert) and at price 34
  (alert).
\<close>

theorem price_alert_strict_witness:
  "compute_fields hombre 3 (Finite 35) = Inr (Finite 35, Finite 105, Finite 105, Finite 0, False)
   \<and> COSTS hombre = Some (Finite 35) \<and> \<not> flt (Finite 35) (Finite 35)
   \<and> compute_fields hombre 3 (Finite 34) = Inr (Finite 35, Finite 102, Finite 105, Finite (- 3), True)
   \<and> flt (Finite 34) (Finite 35)
   \<and> hombre \<in> VALID_TYPES \<and> int_to_float 3 = Inr (Finite 3)"
proof -
  have e1: "round2 (fmul (Finite 3) (Finite 35)) = Finite 105"
    by (simp add: round2_def fl_eval)
  have e2: "round2 (fsub (fmul (Finite 3) (Finite 35)) (fmul (Finite 3) (Finite 35))) = Finite 0"
    by (simp add: round2_def fsub_def fl_eval)
  have e3: "round2 (fmul (Finite 3) (Finite 34)) = Finite 102"
    by (simp add: round2_def fl_eval)
  have e4: "round2 (fsub (fmul (Finite 3) (Finite 34)) (fmul (Finite 3) (Finite 35))) = Finite (- 3)"
    by (simp add: round2_def fsub_def fl_eval)
  have c1: "compute_fields hombre 3 (Finite 35) = Inr (Finite 35, Finite 105, Finite 105, Finite 0, False)"
    unfolding compute_fields_eq [OF COSTS_hombre int_to_float_3] e1 e2 by simp
  have c2: "compute_fields hombre 3 (Finite 34) = Inr (Finite 35, Finite 102, Finite 105, Finite (- 3), True)"
    unfolding compute_fields_eq [OF COSTS_hombre int_to_float_3] e1 e3 e4 by simp
  have v: "hombre \<in> VALID_TYPES" by (simp add: VALID_TYPES_eq)
  from price_alert_strict [of hombre 3 "Finite 35" "Finite 35" "Finite 105" "Finite 105" "Finite 0" False "Finite 3"] c1
  have a: "COSTS hombre = Some (Finite 35) \<and> \<not> flt (Finite 35) (Finite 35)" by blast
  from price_alert_strict [of hombre 3 "Finite 34" "Finite 35" "Finite 102" "Finite 105" "Finite (- 3)" True "Finite 3"] c2
  have b: "flt (Finite 34) (Finite 35)" by blast
  show ?thesis using a b c1 c2 v int_to_float_3 by blast
qed

text \<open>
  Claim C9 as stated fails: \<open>compute_fields\<close> checks neither the quantity nor the price.
  On quantity 0 and price \<open>-1\<close> it returns derived values.
\<close>

theorem compute_fields_unchecked_counterexample:
  "\<not> (0::int) < 0 \<and> flt (Finite (- 1)) (Finite 0)
   \<and> compute_fields hombre 0 (Finite (- 1)) = Inr (Finite 35, Finite 0, Finite 0, Finite 0, True)"
proof -
  have e1: "round2 (fmul (Finite 0) (Finite (- 1))) = Finite 0"
    by (simp add: round2_def fl_eval)
  have e2: "round2 (fmul (Finite 0) (Finite 35)) = Finite 0"
    by (simp add: round2_def fl_eval)
  have e3: "round2 (fsub (fmul (Finite 0) (Finite (- 1))) (fmul (Finite 0) (Finite 35))) = Finite 0"
    by (simp add: round2_def fsub_def fl_eval)
  show ?thesis
    unfolding compute_fields_eq [OF COSTS_hombre int_to_float_0] e1 e2 e3 by simp
qed

text \<open>
  Claim C9, as amended. \<open>compute_fields\<close> rejects a category outside the table with
  \<open>KeyError\<close>. It makes no check on the quantity or on the price: for a category of the
  table it returns derived values for every quantity that converts to a float and every
  price, and raises \<open>OverflowError\<close> for a quantity too large to convert. The checks on
  quantity and price are those of \<open>add_sale\<close>, before the call.
\<close>

theorem compute_fields_rejects_category_only:
  "(t \<notin> VALID_TYPES \<longrightarrow> compute_fields t n p = Inl KeyError)
   \<and> (t \<in> VALID_TYPES \<longrightarrow> int_to_float n = Inr q \<longrightarrow> (\<exists>r. compute_fields t n p = Inr r))
   \<and> (t \<in> VALID_TYPES \<longrightarrow> int_to_float n = Inl e \<longrightarrow> compute_fields t n p = Inl OverflowError)"
proof -
  have o: "int_to_float n = Inl e \<Longrightarrow> e = OverflowError"
    by (auto simp: int_to_float_def split: pyfloat.splits)
  show ?thesis
    using o by (auto simp: VALID_TYPES_def compute_fields_eq compute_fields_def int_times_def
        split: option.splits)
qed

text \<open>The theorem at an unknown category, and at quantity 0 with a negative price.\<close>

theorem compute_fields_rejects_category_only_witness:
  "''gato'' \<notin> VALID_TYPES \<and> compute_fields ''gato'' 3 (Finite 40) = Inl KeyError
   \<and> hombre \<in> VALID_TYPES \<and> int_to_float 0 = Inr (Finite 0)
   \<and> (\<exists>r. compute_fields hombre 0 (Finite (- 1)) = Inr r)"
proof -
  have v: "hombre \<in> VALID_TYPES" "''gato'' \<notin> VALID_TYPES"
    by (simp_all add: VALID_TYPES_eq hombre_def mujer_def ninyo_def)
  from compute_fields_rejects_category_only [of "''gato''" 3 "Finite 40" "Finite 3" OverflowError]
       compute_fields_rejects_category_only [of hombre 0 "Finite (- 1)" "Finite 0" OverflowError]
  show ?thesis using v int_to_float_0 by simp
qed

section \<open>add_sale\<close>

lemma parse_example_1015:
  "parse_datetime now (strip ''2025-12-29 10:15'') =
     Inr \<lparr>year = 2025, month = 12, day = 29, hour = 10, minute = 15, second = 0, microsecond = 0\<rparr>"
  by code_simp

lemma strftime_example_1015:
  "strftime \<lparr>year = 2025, month = 12, day = 29, hour = 10, minute = 15, second = 0, microsecond = 0\<rparr>
     = ''2025-12-29 10:15:00''"
  by code_simp

lemma strip_lower_examples:
  "lower (strip ''gato'') = ''gato''" "lower (strip ''hombre'') = ''hombre''"
  "strip ''negro'' = ''negro''" "strip ''4'' = ''4''" "strip ''0.125'' = ''0.125''"
  "strip ''abc'' = ''abc''" "strip ''0'' = ''0''" "strip ''3'' = ''3''" "strip ''-5'' = ''-5''"
  by code_simp+

lemma example_fecha:
  "parse_datetime now (strip (fecha_in (example_console t c p))) =
     Inr \<lparr>year = 2025, month = 12, day = 29, hour = 10, minute = 15, second = 0, microsecond = 0\<rparr>"
  by (simp add: example_console_def parse_example_1015)

lemma example_types:
  "lower (strip ''gato'') \<notin> VALID_TYPES" "lower (strip ''hombre'') \<in> VALID_TYPES"
  by (simp_all add: strip_lower_examples VALID_TYPES_eq hombre_def mujer_def ninyo_def)

lemma int_to_float_4: "int_to_float 4 = Inr (Finite 4)"
  by (simp add: int_to_float_def fl_eval)

lemma float_012: "float_of_decimal 12 2 = Finite (1080863910568919 / 9007199254740992)"
  by (simp add: float_of_decimal_def fl_eval)

lemma float_048: "float_of_decimal 48 2 = Finite (1080863910568919 / 2251799813685248)"
  by (simp add: float_of_decimal_def fl_eval)

lemma add_sale_registered:
  assumes "result (add_sale py_int py_float now inp sales) = Registered r"
  shows "\<exists>dt q p. parse_datetime now (strip (fecha_in inp)) = Inr dt
           \<and> py_int (strip (cantidad_in inp)) = Some q \<and> 0 < q
           \<and> py_float (strip (precio_in inp)) = Some p \<and> \<not> flt p (Finite 0)
           \<and> lower (strip (tipo_in inp)) \<in> VALID_TYPES
           \<and> datetime r = strftime dt \<and> tipo r = lower (strip (tipo_in inp))
           \<and> color r = strip (color_in inp)
           \<and> cantidad r = q \<and> precio_unitario r = round2 p
           \<and> compute_fields (tipo r) q p =
                Inr (costo_unitario r, total_venta r, inversion_recuperada r, ganancia r,
                     alerta_precio r)
           \<and> add_sale py_int py_float now inp sales =
                \<lparr>ledger = sales @ [r], saved = Some (sales @ [r]), result = Registered r\<rparr>"
  using assms
  by (auto simp: add_sale_def rejected_def Let_def split: sum.splits option.splits if_splits)

lemma example_sale:
  "add_sale example_int example_float example_now (example_console ''hombre'' ''4'' ''0.125'') [] =
     (let r = \<lparr>datetime = ''2025-12-29 10:15:00'', tipo = ''hombre'', color = ''negro'',
                cantidad = 4, precio_unitario = float_of_decimal 12 2,
                costo_unitario = Finite 35, total_venta = Finite (1 / 2),
                inversion_recuperada = Finite 140, ganancia = Finite (- 279 / 2),
                alerta_precio = True\<rparr>
      in \<lparr>ledger = [r], saved = Some [r], result = Registered r\<rparr>)"
proof -
  have e0: "round2 (Finite (1 / 8)) = Finite (1080863910568919 / 9007199254740992)"
    by (simp add: round2_def fl_eval)
  have e1: "round2 (fmul (Finite 4) (Finite (1 / 8))) = Finite (1 / 2)"
    by (simp add: round2_def fl_eval)
  have e2: "round2 (fmul (Finite 4) (Finite 35)) = Finite 140"
    by (simp add: round2_def fl_eval)
  have e3: "round2 (fsub (fmul (Finite 4) (Finite (1 / 8))) (fmul (Finite 4) (Finite 35))) = Finite (- 279 / 2)"
    by (simp add: round2_def fsub_def fl_eval)
  have c: "compute_fields ''hombre'' 4 (Finite (1 / 8)) =
             Inr (Finite 35, Finite (1 / 2), Finite 140, Finite (- 279 / 2), True)"
    unfolding compute_fields_eq [OF COSTS_hombre int_to_float_4, unfolded hombre_def] e1 e2 e3
    by simp
  have t: "lower (strip ''hombre'') \<in> VALID_TYPES" by (rule example_types)
  have a: "example_int ''4'' = Some 4" "example_float ''0.125'' = Some (Finite (1 / 8))"
    by (simp_all add: example_int_def example_float_def)
  show ?thesis
    using t
    by (simp add: add_sale_def example_fecha Let_def strip_lower_examples a c e0 float_012
        strftime_example_1015 example_console_def parse_example_1015)
qed

text \<open>
  Claim C2. Once the timestamp has been read, an answer that is not a category of the
  table is rejected with the message for the category; with a valid category, a quantity
  that \<open>int(...)\<close> refuses or that is not positive is rejected with a message for the
  quantity; with a valid category and quantity, a negative price is rejected with the
  message for the price. The checks run in that order, so the message is that of the
  first check that fails. In each case, and also when the timestamp itself is refused,
  the ledger is the one that was passed in, nothing is saved, and a message is reported.
\<close>

theorem add_sale_rejects_invalid:
  "(parse_datetime now (strip (fecha_in inp)) = Inr dt \<longrightarrow>
      (lower (strip (tipo_in inp)) \<notin> VALID_TYPES \<longrightarrow>
         add_sale py_int py_float now inp sales = \<lparr>ledger = sales, saved = None, result = Rejected TipoInvalido\<rparr>)
    \<and> (lower (strip (tipo_in inp)) \<in> VALID_TYPES \<longrightarrow> py_int (strip (cantidad_in inp)) = None \<longrightarrow>
         add_sale py_int py_float now inp sales = \<lparr>ledger = sales, saved = None, result = Rejected CantidadInvalida\<rparr>)
    \<and> (lower (strip (tipo_in inp)) \<in> VALID_TYPES \<longrightarrow> py_int (strip (cantidad_in inp)) = Some q \<longrightarrow> q \<le> 0 \<longrightarrow>
         add_sale py_int py_float now inp sales = \<lparr>ledger = sales, saved = None, result = Rejected CantidadNoPositiva\<rparr>)
    \<and> (lower (strip (tipo_in inp)) \<in> VALID_TYPES \<longrightarrow> py_int (strip (cantidad_in inp)) = Some q \<longrightarrow> 0 < q \<longrightarrow>
         py_float (strip (precio_in inp)) = Some p \<longrightarrow> flt p (Finite 0) \<longrightarrow>
         add_sale py_int py_float now inp sales = \<lparr>ledger = sales, saved = None, result = Rejected PrecioNegativo\<rparr>))
   \<and> (lower (strip (tipo_in inp)) \<notin> VALID_TYPES
        \<or> py_int (strip (cantidad_in inp)) = None
        \<or> (\<exists>n. py_int (strip (cantidad_in inp)) = Some n \<and> n \<le> 0)
        \<or> (\<exists>x. py_float (strip (precio_in inp)) = Some x \<and> flt x (Finite 0)) \<longrightarrow>
       ledger (add_sale py_int py_float now inp sales) = sales
       \<and> saved (add_sale py_int py_float now inp sales) = None
       \<and> (\<exists>m. result (add_sale py_int py_float now inp sales) = Rejected m))"
  by (auto simp: add_sale_def rejected_def Let_def split: sum.splits option.splits)



text \<open>
  The theorem at four sessions on the empty ledger: an unknown category, the quantity
  \<open>abc\<close>, the quantity 0 and the price \<open>-5\<close>.
\<close>

theorem add_sale_rejects_invalid_witness:
  "add_sale example_int example_float example_now (example_console ''gato'' ''3'' ''40'') [] =
     \<lparr>ledger = [], saved = None, result = Rejected TipoInvalido\<rparr>
   \<and> add_sale example_int example_float example_now (example_console ''hombre'' ''abc'' ''40'') [] =
     \<lparr>ledger = [], saved = None, result = Rejected CantidadInvalida\<rparr>
   \<and> add_sale example_int example_float example_now (example_console ''hombre'' ''0'' ''40'') [] =
     \<lparr>ledger = [], saved = None, result = Rejected CantidadNoPositiva\<rparr>
   \<and> add_sale example_int example_float example_now (example_console ''hombre'' ''3'' ''-5'') [] =
     \<lparr>ledger = [], saved = None, result = Rejected PrecioNegativo\<rparr>"
proof -
  have sel: "tipo_in (example_console t c p) = t" "cantidad_in (example_console t c p) = c"
    "precio_in (example_console t c p) = p" for t c p
    by (simp_all add: example_console_def)
  have a: "example_int (strip ''abc'') = None" "example_int (strip ''0'') = Some 0"
    "example_int (strip ''3'') = Some 3" "example_float (strip ''-5'') = Some (Finite (- 5))"
    by (simp_all add: strip_lower_examples example_int_def example_float_def)
  have n: "flt (Finite (- 5)) (Finite 0)" by simp
  from add_sale_rejects_invalid [of example_now "example_console ''gato'' ''3'' ''40''" _ example_int
         example_float "[]" 3 "Finite 40"]
  have 1: "add_sale example_int example_float example_now (example_console ''gato'' ''3'' ''40'') [] =
     \<lparr>ledger = [], saved = None, result = Rejected TipoInvalido\<rparr>"
    using example_fecha example_types by (simp add: sel)
  from add_sale_rejects_invalid [of example_now "example_console ''hombre'' ''abc'' ''40''" _ example_int
         example_float "[]" 3 "Finite 40"]
  have 2: "add_sale example_int example_float example_now (example_console ''hombre'' ''abc'' ''40'') [] =
     \<lparr>ledger = [], saved = None, result = Rejected CantidadInvalida\<rparr>"
    using example_fecha example_types a by (simp add: sel)
  from add_sale_rejects_invalid [of example_now "example_console ''hombre'' ''0'' ''40''" _ example_int
         example_float "[]" 0 "Finite 40"]
  have 3: "add_sale example_int example_float example_now (example_console ''hombre'' ''0'' ''40'') [] =
     \<lparr>ledger = [], saved = None, result = Rejected CantidadNoPositiva\<rparr>"
    using example_fecha example_types a by (simp add: sel)
  from add_sale_rejects_invalid [of example_now "example_console ''hombre'' ''3'' ''-5''" _ example_int
         example_float "[]" 3 "Finite (- 5)"]
  have 4: "add_sale example_int example_float example_now (example_console ''hombre'' ''3'' ''-5'') [] =
     \<lparr>ledger = [], saved = None, result = Rejected PrecioNegativo\<rparr>"
    using example_fecha example_types a n by (simp add: sel)
  from 1 2 3 4 show ?thesis by blast
qed

text \<open>
  Claim C10. When \<open>add_sale\<close> registers a record, that record is the one appended to the
  ledger and saved. It holds the typed price rounded to two decimals, while its derived
  fields are those of \<open>compute_fields\<close> on the typed, unrounded price. So the stored total
  need not be the rounded product of the stored quantity and the stored price: for
  category \<open>hombre\<close>, quantity 4 and price \<open>0.125\<close> the record at the end of the ledger
  has the price \<open>0.12\<close> and the total \<open>0.5\<close>, whereas \<open>round(4 * 0.12, 2) = 0.48\<close>.
\<close>

theorem stored_price_rounded_total_not:
  "(result (add_sale py_int py_float now inp sales) = Registered r \<longrightarrow>
      ledger (add_sale py_int py_float now inp sales) = sales @ [r]
      \<and> saved (add_sale py_int py_float now inp sales) = Some (sales @ [r])
      \<and> (\<exists>q p. py_int (strip (cantidad_in inp)) = Some q
             \<and> py_float (strip (precio_in inp)) = Some p
             \<and> cantidad r = q \<and> precio_unitario r = round2 p
             \<and> compute_fields (tipo r) q p =
                  Inr (costo_unitario r, total_venta r, inversion_recuperada r, ganancia r,
                       alerta_precio r)))
   \<and> (\<exists>r0. add_sale example_int example_float example_now
               (example_console ''hombre'' ''4'' ''0.125'') [] =
               \<lparr>ledger = [r0], saved = Some [r0], result = Registered r0\<rparr>
           \<and> result (add_sale example_int example_float example_now
                     (example_console ''hombre'' ''4'' ''0.125'') []) = Registered r0
           \<and> cantidad r0 = 4 \<and> int_to_float 4 = Inr (Finite 4)
           \<and> precio_unitario r0 = float_of_decimal 12 2
           \<and> total_venta r0 = Finite (1 / 2)
           \<and> round2 (fmul (Finite 4) (precio_unitario r0)) = float_of_decimal 48 2
           \<and> total_venta r0 \<noteq> round2 (fmul (Finite 4) (precio_unitario r0)))"
proof -
  have g: "result (add_sale py_int py_float now inp sales) = Registered r \<longrightarrow>
      ledger (add_sale py_int py_float now inp sales) = sales @ [r]
      \<and> saved (add_sale py_int py_float now inp sales) = Some (sales @ [r])
      \<and> (\<exists>q p. py_int (strip (cantidad_in inp)) = Some q
             \<and> py_float (strip (precio_in inp)) = Some p
             \<and> cantidad r = q \<and> precio_unitario r = round2 p
             \<and> compute_fields (tipo r) q p =
                  Inr (costo_unitario r, total_venta r, inversion_recuperada r, ganancia r,
                       alerta_precio r))"
  proof
    assume a: "result (add_sale py_int py_float now inp sales) = Registered r"
    from add_sale_registered [OF a] obtain q p where
      1: "py_int (strip (cantidad_in inp)) = Some q" "py_float (strip (precio_in inp)) = Some p"
        "cantidad r = q" "precio_unitario r = round2 p"
        "compute_fields (tipo r) q p =
           Inr (costo_unitario r, total_venta r, inversion_recuperada r, ganancia r,
                alerta_precio r)"
      and 2: "add_sale py_int py_float now inp sales =
                \<lparr>ledger = sales @ [r], saved = Some (sales @ [r]), result = Registered r\<rparr>"
      by blast
    from 2 have "ledger (add_sale py_int py_float now inp sales) = sales @ [r]"
      "saved (add_sale py_int py_float now inp sales) = Some (sales @ [r])"
      by simp_all
    with 1 show "ledger (add_sale py_int py_float now inp sales) = sales @ [r]
      \<and> saved (add_sale py_int py_float now inp sales) = Some (sales @ [r])
      \<and> (\<exists>q p. py_int (strip (cantidad_in inp)) = Some q
             \<and> py_float (strip (precio_in inp)) = Some p
             \<and> cantidad r = q \<and> precio_unitario r = round2 p
             \<and> compute_fields (tipo r) q p =
                  Inr (costo_unitario r, total_venta r, inversion_recuperada r, ganancia r,
                       alerta_precio r))"
      by blast
  qed
  have e: "round2 (fmul (Finite 4) (Finite (1080863910568919 / 9007199254740992)))
             = Finite (1080863910568919 / 2251799813685248)"
    by (simp add: round2_def fl_eval)
  have x: "\<exists>r0. add_sale example_int example_float example_now
               (example_console ''hombre'' ''4'' ''0.125'') [] =
               \<lparr>ledger = [r0], saved = Some [r0], result = Registered r0\<rparr>
           \<and> result (add_sale example_int example_float example_now
                     (example_console ''hombre'' ''4'' ''0.125'') []) = Registered r0
           \<and> cantidad r0 = 4 \<and> int_to_float 4 = Inr (Finite 4)
           \<and> precio_unitario r0 = float_of_decimal 12 2
           \<and> total_venta r0 = Finite (1 / 2)
           \<and> round2 (fmul (Finite 4) (precio_unitario r0)) = float_of_decimal 48 2
           \<and> total_venta r0 \<noteq> round2 (fmul (Finite 4) (precio_unitario r0))"
    unfolding example_sale Let_def float_012 float_048
    by (rule exI [of _ "\<lparr>datetime = ''2025-12-29 10:15:00'', tipo = ''hombre'', color = ''negro'',
                cantidad = 4, precio_unitario = Finite (1080863910568919 / 9007199254740992),
                costo_unitario = Finite 35, total_venta = Finite (1 / 2),
                inversion_recuperada = Finite 140, ganancia = Finite (- 279 / 2),
                alerta_precio = True\<rparr>"])
       (simp add: e int_to_float_4 del: fmul.simps)
  from g x show ?thesis by blast
qed

text \<open>
  The general part of the theorem at that same session: the ledger and the saved file
  hold the record with the price \<open>0.12\<close> and the total \<open>0.5\<close> of the price \<open>0.125\<close>.
\<close>

theorem stored_price_rounded_total_not_witness:
  "result (add_sale example_int example_float example_now
             (example_console ''hombre'' ''4'' ''0.125'') []) =
     Registered \<lparr>datetime = ''2025-12-29 10:15:00'', tipo = ''hombre'', color = ''negro'',
                cantidad = 4, precio_unitario = float_of_decimal 12 2,
                costo_unitario = Finite 35, total_venta = Finite (1 / 2),
                inversion_recuperada = Finite 140, ganancia = Finite (- 279 / 2),
                alerta_precio = True\<rparr>
   \<and> ledger (add_sale example_int example_float example_now
             (example_console ''hombre'' ''4'' ''0.125'') []) =
     [] @ [\<lparr>datetime = ''2025-12-29 10:15:00'', tipo = ''hombre'', color = ''negro'',
                cantidad = 4, precio_unitario = float_of_decimal 12 2,
                costo_unitario = Finite 35, total_venta = Finite (1 / 2),
                inversion_recuperada = Finite 140, ganancia = Finite (- 279 / 2),
                alerta_precio = True\<rparr>]
   \<and> saved (add_sale example_int example_float example_now
             (example_console ''hombre'' ''4'' ''0.125'') []) =
     Some ([] @ [\<lparr>datetime = ''2025-12-29 10:15:00'', tipo = ''hombre'', color = ''negro'',
                cantidad = 4, precio_unitario = float_of_decimal 12 2,
                costo_unitario = Finite 35, total_venta = Finite (1 / 2),
                inversion_recuperada = Finite 140, ganancia = Finite (- 279 / 2),
                alerta_precio = True\<rparr>])
   \<and> (\<exists>p. example_float (strip ''0.125'') = Some p \<and> float_of_decimal 12 2 = round2 p
          \<and> compute_fields ''hombre'' 4 p =
               Inr (Finite 35, Finite (1 / 2), Finite 140, Finite (- 279 / 2), True))"
proof -
  let ?r = "\<lparr>datetime = ''2025-12-29 10:15:00'', tipo = ''hombre'', color = ''negro'',
                cantidad = 4, precio_unitario = float_of_decimal 12 2,
                costo_unitario = Finite 35, total_venta = Finite (1 / 2),
                inversion_recuperada = Finite 140, ganancia = Finite (- 279 / 2),
                alerta_precio = True\<rparr>"
  let ?a = "add_sale example_int example_float example_now
             (example_console ''hombre'' ''4'' ''0.125'') []"
  have r: "result ?a = Registered ?r"
    by (simp add: example_sale Let_def)
  note T = stored_price_rounded_total_not [of example_int example_float example_now
         "example_console ''hombre'' ''4'' ''0.125''" "[]" ?r]
  from T r have l: "ledger ?a = [] @ [?r]" and sv: "saved ?a = Some ([] @ [?r])"
    by blast+
  from T r
  have "\<exists>q p. example_int (strip (cantidad_in (example_console ''hombre'' ''4'' ''0.125''))) = Some q
          \<and> example_float (strip (precio_in (example_console ''hombre'' ''4'' ''0.125''))) = Some p
          \<and> cantidad ?r = q \<and> precio_unitario ?r = round2 p
          \<and> compute_fields (tipo ?r) q p =
               Inr (costo_unitario ?r, total_venta ?r, inversion_recuperada ?r, ganancia ?r,
                    alerta_precio ?r)"
    by blast
  then have "\<exists>p. example_float (strip ''0.125'') = Some p \<and> float_of_decimal 12 2 = round2 p
          \<and> compute_fields ''hombre'' 4 p =
               Inr (Finite 35, Finite (1 / 2), Finite 140, Finite (- 279 / 2), True)"
    by (auto simp: example_console_def)
  with r l sv show ?thesis by blast
qed

section \<open>Properties of the summaries\<close>

lemma strptime_error: "strptime s f = Inl e \<Longrightarrow> e = ValueError"
  by (auto simp: strptime_def new_datetime_def check_date_fields_def check_time_fields_def
      split: option.splits if_splits sum.splits prod.splits)

lemma daily_loop_filter:
  "\<forall>s\<in>set sales. parses s \<Longrightarrow>
     daily_loop dt sales a = Inr (foldl accumulate a (filter (on_day dt) sales))"
proof (induction sales arbitrary: a)
  case Nil
  then show ?case by simp
next
  case (Cons s ss)
  obtain tv ga tg where a: "a = (tv, ga, tg)" by (cases a)
  from Cons.prems obtain d where d: "strptime (datetime s) STORED_FORMAT = Inr d"
    by (auto simp: parses_def split: sum.splits)
  from Cons.prems have "\<forall>s\<in>set ss. parses s" by simp
  then show ?case
    using Cons.IH d by (simp add: a on_day_def accumulate_def)
qed

lemma weekly_loop_filter:
  "\<forall>s\<in>set sales. parses s \<Longrightarrow>
     weekly_loop yr wk sales a = Inr (foldl accumulate a (filter (in_week yr wk) sales))"
proof (induction sales arbitrary: a)
  case Nil
  then show ?case by simp
next
  case (Cons s ss)
  obtain tv ga tg where a: "a = (tv, ga, tg)" by (cases a)
  from Cons.prems obtain d where d: "strptime (datetime s) STORED_FORMAT = Inr d"
    by (auto simp: parses_def split: sum.splits)
  from Cons.prems have "\<forall>s\<in>set ss. parses s" by simp
  then show ?case
    using Cons.IH d by (simp add: a in_week_def accumulate_def split: prod.splits)
qed

lemma daily_summary_filter:
  "\<forall>s\<in>set sales. parses s \<Longrightarrow>
     daily_summary sales dt = Inr (summarize (filter (on_day dt) sales))"
  by (simp add: daily_summary_def daily_loop_filter summarize_def Let_def split: prod.splits)

lemma weekly_summary_filter:
  "\<forall>s\<in>set sales. parses s \<Longrightarrow>
     weekly_summary sales yr wk = Inr (summarize (filter (in_week yr wk) sales))"
  by (simp add: weekly_summary_def weekly_loop_filter summarize_def Let_def split: prod.splits)

lemma daily_loop_error:
  "\<not> (\<forall>s\<in>set sales. parses s) \<Longrightarrow> daily_loop dt sales a = Inl ValueError"
proof (induction sales arbitrary: a)
  case Nil
  then show ?case by simp
next
  case (Cons s ss)
  obtain tv ga tg where a: "a = (tv, ga, tg)" by (cases a)
  show ?case
  proof (cases "strptime (datetime s) STORED_FORMAT")
    case (Inl e)
    then show ?thesis using strptime_error [OF Inl] by (simp add: a)
  next
    case (Inr d)
    then have "parses s" by (simp add: parses_def)
    with Cons.prems have "\<not> (\<forall>s\<in>set ss. parses s)" by simp
    then show ?thesis using Cons.IH Inr by (simp add: a)
  qed
qed

lemma weekly_loop_error:
  "\<not> (\<forall>s\<in>set sales. parses s) \<Longrightarrow> weekly_loop yr wk sales a = Inl ValueError"
proof (induction sales arbitrary: a)
  case Nil
  then show ?case by simp
next
  case (Cons s ss)
  obtain tv ga tg where a: "a = (tv, ga, tg)" by (cases a)
  show ?case
  proof (cases "strptime (datetime s) STORED_FORMAT")
    case (Inl e)
    then show ?thesis using strptime_error [OF Inl] by (simp add: a)
  next
    case (Inr d)
    then have "parses s" by (simp add: parses_def)
    with Cons.prems have "\<not> (\<forall>s\<in>set ss. parses s)" by simp
    then show ?thesis using Cons.IH Inr by (simp add: a split: prod.splits)
  qed
qed

lemma foldl_accumulate:
  "foldl accumulate (tv, ga, tg) xs =
     (foldl fadd tv (map total_venta xs), foldl fadd ga (map ganancia xs),
      foldl (\<lambda>d s. dict_add d (tipo s) (ganancia s)) tg xs)"
  by (induction xs arbitrary: tv ga tg) (simp_all add: accumulate_def)

lemma round2_zero: "round2 (Finite 0) = Finite 0"
  by (simp add: round2_def fl_def round_half_even_def)

lemma summarize_Nil: "summarize [] = (Finite 0, Finite 0, None, [])"
  by (simp add: summarize_def round2_zero)


lemma map_of_dict_add:
  "map_of (dict_add d k v) k' =
     (if k' = k then Some (fadd (case map_of d k of None \<Rightarrow> Finite 0 | Some w \<Rightarrow> w) v)
      else map_of d k')"
  by (induction d) auto

lemma keys_dict_add:
  "map fst (dict_add d k v) = (if k \<in> fst ` set d then map fst d else map fst d @ [k])"
  by (induction d) (force simp: image_iff)+

lemma distinct_dict_add: "distinct (map fst d) \<Longrightarrow> distinct (map fst (dict_add d k v))"
  by (simp add: keys_dict_add)

lemma map_of_dict_loop:
  "map_of (dict_loop d xs) k =
     (case map_of d k of
        Some w \<Rightarrow> Some (foldl fadd w (profits_of k xs))
      | None \<Rightarrow> if k \<in> tipo ` set xs then Some (foldl fadd (Finite 0) (profits_of k xs)) else None)"
proof (induction xs arbitrary: d)
  case Nil
  then show ?case by (simp add: profits_of_def split: option.splits)
next
  case (Cons s ss)
  show ?case
    by (simp add: Cons.IH map_of_dict_add profits_of_def split: option.splits)
qed

lemma distinct_dict_loop: "distinct (map fst d) \<Longrightarrow> distinct (map fst (dict_loop d xs))"
  by (induction xs arbitrary: d) (simp_all add: distinct_dict_add)

lemma dict_loop_Nil_iff: "dict_loop d xs = [] \<longleftrightarrow> d = [] \<and> xs = []"
proof (induction xs arbitrary: d)
  case Nil
  then show ?case by simp
next
  case (Cons s ss)
  have "dict_add d k v \<noteq> []" for k v by (cases d) (auto split: if_splits)
  then show ?case by (simp add: Cons.IH)
qed

lemma flt_irrefl: "\<not> flt a a"
  by (cases a) auto

lemma flt_trans: "flt a b \<Longrightarrow> flt b c \<Longrightarrow> flt a c"
  by (cases a; cases b; cases c) auto

lemma fge_trans_lt: "fge b a \<Longrightarrow> flt b c \<Longrightarrow> flt a c"
  by (cases a; cases b; cases c) (auto simp: fge_def)

lemma fge_trans: "fge a b \<Longrightarrow> fge b c \<Longrightarrow> fge a c"
  by (cases a; cases b; cases c) (auto simp: fge_def)

lemma flt_imp_fge: "flt a b \<Longrightarrow> fge b a"
  by (cases a; cases b) (auto simp: fge_def)

lemma not_flt_fge: "a \<noteq> NaN \<Longrightarrow> b \<noteq> NaN \<Longrightarrow> \<not> flt a b \<Longrightarrow> fge a b"
  by (simp add: fge_def)

lemma fge_refl: "a \<noteq> NaN \<Longrightarrow> fge a a"
  by (simp add: fge_def flt_irrefl)

lemma max_from_cases:
  assumes "bv \<noteq> NaN" and "\<forall>x\<in>set d. snd x \<noteq> NaN"
  shows "(max_from bk bv d = bk \<and> (\<forall>x\<in>set d. fge bv (snd x)))
       \<or> (\<exists>pre k v post. d = pre @ (k, v) # post \<and> max_from bk bv d = k \<and> flt bv v
             \<and> (\<forall>x\<in>set pre. flt (snd x) v) \<and> (\<forall>x\<in>set post. fge v (snd x)))"
  using assms
proof (induction d arbitrary: bk bv)
  case Nil
  then show ?case by simp
next
  case (Cons a d)
  obtain k1 v1 where a: "a = (k1, v1)" by (cases a)
  from Cons.prems have v1: "v1 \<noteq> NaN" and rest: "\<forall>x\<in>set d. snd x \<noteq> NaN"
    by (auto simp: a)
  show ?case
  proof (cases "fgt v1 bv")
    case True
    then have lt: "flt bv v1" by (simp add: fgt_def)
    from Cons.IH [OF v1 rest, of k1]
    show ?thesis
    proof
      assume h: "max_from k1 v1 d = k1 \<and> (\<forall>x\<in>set d. fge v1 (snd x))"
      have m: "max_from bk bv (a # d) = k1" using True h by (simp add: a)
      have "\<exists>pre k v post. a # d = pre @ (k, v) # post \<and> max_from bk bv (a # d) = k \<and> flt bv v
             \<and> (\<forall>x\<in>set pre. flt (snd x) v) \<and> (\<forall>x\<in>set post. fge v (snd x))"
        by (rule exI [of _ "[]"], rule exI [of _ k1], rule exI [of _ v1], rule exI [of _ d])
           (use m lt h in \<open>simp add: a\<close>)
      then show ?thesis by blast
    next
      assume "\<exists>pre k v post. d = pre @ (k, v) # post \<and> max_from k1 v1 d = k \<and> flt v1 v
             \<and> (\<forall>x\<in>set pre. flt (snd x) v) \<and> (\<forall>x\<in>set post. fge v (snd x))"
      then obtain pre k v post where h: "d = pre @ (k, v) # post" "max_from k1 v1 d = k"
        "flt v1 v" "\<forall>x\<in>set pre. flt (snd x) v" "\<forall>x\<in>set post. fge v (snd x)"
        by blast
      have 1: "a # d = (a # pre) @ (k, v) # post" using h(1) by simp
      have 2: "max_from bk bv (a # d) = k" using True h(2) by (simp add: a)
      have 3: "flt bv v" using lt h(3) by (rule flt_trans)
      have 4: "\<forall>x\<in>set (a # pre). flt (snd x) v" using h(3,4) by (simp add: a)
      from 1 2 3 4 h(5) show ?thesis by blast
    qed
  next
    case False
    then have ge: "fge bv v1" using Cons.prems(1) v1 by (simp add: fgt_def fge_def)
    from Cons.IH [OF Cons.prems(1) rest, of bk]
    show ?thesis
    proof
      assume h: "max_from bk bv d = bk \<and> (\<forall>x\<in>set d. fge bv (snd x))"
      then show ?thesis using False ge by (simp add: a)
    next
      assume "\<exists>pre k v post. d = pre @ (k, v) # post \<and> max_from bk bv d = k \<and> flt bv v
             \<and> (\<forall>x\<in>set pre. flt (snd x) v) \<and> (\<forall>x\<in>set post. fge v (snd x))"
      then obtain pre k v post where h: "d = pre @ (k, v) # post" "max_from bk bv d = k"
        "flt bv v" "\<forall>x\<in>set pre. flt (snd x) v" "\<forall>x\<in>set post. fge v (snd x)"
        by blast
      have 1: "a # d = (a # pre) @ (k, v) # post" using h(1) by simp
      have 2: "max_from bk bv (a # d) = k" using False h(2) by (simp add: a)
      have "flt v1 v" using ge h(3) by (rule fge_trans_lt)
      then have 4: "\<forall>x\<in>set (a # pre). flt (snd x) v" using h(4) by (simp add: a)
      from 1 2 h(3) 4 h(5) show ?thesis by blast
    qed
  qed
qed

lemma max_key_first_maximum:
  assumes "d \<noteq> []" and "\<forall>x\<in>set d. snd x \<noteq> NaN"
  shows "\<exists>pre k v post. d = pre @ (k, v) # post \<and> max_key d = k
           \<and> (\<forall>x\<in>set pre. flt (snd x) v) \<and> (\<forall>x\<in>set post. fge v (snd x))"
proof -
  from assms(1) obtain k0 v0 r where d: "d = (k0, v0) # r" by (cases d) auto
  from assms(2) have v0: "v0 \<noteq> NaN" and rest: "\<forall>x\<in>set r. snd x \<noteq> NaN"
    by (auto simp: d)
  have mk: "max_key d = max_from k0 v0 r" by (simp add: max_key_def d)
  from max_from_cases [OF v0 rest, of k0]
  show ?thesis
  proof
    assume h: "max_from k0 v0 r = k0 \<and> (\<forall>x\<in>set r. fge v0 (snd x))"
    show ?thesis
      by (rule exI [of _ "[]"], rule exI [of _ k0], rule exI [of _ v0], rule exI [of _ r])
         (use h mk in \<open>simp add: d\<close>)
  next
    assume "\<exists>pre k v post. r = pre @ (k, v) # post \<and> max_from k0 v0 r = k \<and> flt v0 v
             \<and> (\<forall>x\<in>set pre. flt (snd x) v) \<and> (\<forall>x\<in>set post. fge v (snd x))"
    then obtain pre k v post where h: "r = pre @ (k, v) # post" "max_from k0 v0 r = k"
      "flt v0 v" "\<forall>x\<in>set pre. flt (snd x) v" "\<forall>x\<in>set post. fge v (snd x)"
      by blast
    have 1: "d = ((k0, v0) # pre) @ (k, v) # post" using h(1) by (simp add: d)
    have 4: "\<forall>x\<in>set ((k0, v0) # pre). flt (snd x) v" using h(3,4) by simp
    show ?thesis
      by (rule exI [of _ "(k0, v0) # pre"], rule exI [of _ k], rule exI [of _ v],
          rule exI [of _ post]) (use 1 mk h(2) 4 h(5) in simp)
  qed
qed


lemma stored_examples:
  "strptime ''2025-12-29 10:15:00'' STORED_FORMAT =
     Inr \<lparr>year = 2025, month = 12, day = 29, hour = 10, minute = 15, second = 0, microsecond = 0\<rparr>"
  "strptime ''2025-12-29 12:30:00'' STORED_FORMAT =
     Inr \<lparr>year = 2025, month = 12, day = 29, hour = 12, minute = 30, second = 0, microsecond = 0\<rparr>"
  "strptime ''2025-12-28 09:00:00'' STORED_FORMAT =
     Inr \<lparr>year = 2025, month = 12, day = 28, hour = 9, minute = 0, second = 0, microsecond = 0\<rparr>"
  "strptime ''2025-12-30 14:00:00'' STORED_FORMAT =
     Inr \<lparr>year = 2025, month = 12, day = 30, hour = 14, minute = 0, second = 0, microsecond = 0\<rparr>"
  by code_simp+

lemma isocalendar_examples:
  "isocalendar \<lparr>year = 2025, month = 12, day = 29, hour = 10, minute = 15, second = 0, microsecond = 0\<rparr> = (2026, 1, 1)"
  "isocalendar \<lparr>year = 2025, month = 12, day = 29, hour = 12, minute = 30, second = 0, microsecond = 0\<rparr> = (2026, 1, 1)"
  "isocalendar \<lparr>year = 2025, month = 12, day = 28, hour = 9, minute = 0, second = 0, microsecond = 0\<rparr> = (2025, 52, 7)"
  "isocalendar \<lparr>year = 2025, month = 12, day = 30, hour = 14, minute = 0, second = 0, microsecond = 0\<rparr> = (2026, 1, 2)"
  by code_simp+

lemma demo_parses: "\<forall>s\<in>set demo_ledger. parses s"
  by (simp add: demo_ledger_def parses_def stored_examples)

lemma demo_on_day:
  "filter (on_day \<lparr>year = 2025, month = 12, day = 29\<rparr>) demo_ledger = [demo_ledger ! 0, demo_ledger ! 1]"
  "filter (on_day \<lparr>year = 2025, month = 12, day = 27\<rparr>) demo_ledger = []"
  by (simp_all add: demo_ledger_def on_day_def stored_examples date_of_def)

lemma demo_in_week:
  "filter (in_week 2026 1) demo_ledger = [demo_ledger ! 0, demo_ledger ! 1, demo_ledger ! 3]"
  "filter (in_week 2025 52) demo_ledger = [demo_ledger ! 2]"
  "filter (in_week 2025 51) demo_ledger = []"
  by (simp_all add: demo_ledger_def in_week_def stored_examples isocalendar_examples)

lemma names_distinct: "hombre \<noteq> mujer" "hombre \<noteq> ninyo" "mujer \<noteq> ninyo"
  "mujer \<noteq> hombre" "ninyo \<noteq> hombre" "ninyo \<noteq> mujer"
  by (simp_all add: hombre_def mujer_def ninyo_def)

lemma summarize_demo_day:
  "summarize [demo_ledger ! 0, demo_ledger ! 1] =
     (Finite 176, Finite 11, Some hombre, [(hombre, Finite 15), (mujer, Finite (- 4))])"
  by (simp add: summarize_def accumulate_def demo_ledger_def names_distinct max_key_def fgt_def
      round2_def fl_eval)



lemma daily_summary_error:
  "\<not> (\<forall>s\<in>set sales. parses s) \<Longrightarrow> daily_summary sales dt = Inl ValueError"
  by (simp add: daily_summary_def daily_loop_error)

lemma weekly_summary_error:
  "\<not> (\<forall>s\<in>set sales. parses s) \<Longrightarrow> weekly_summary sales yr wk = Inl ValueError"
  by (simp add: weekly_summary_def weekly_loop_error)

lemma summarize_totals:
  "\<exists>best D. summarize xs =
     (round2 (fsum (map total_venta xs)), round2 (fsum (map ganancia xs)), best, D)"
  by (simp add: summarize_def foldl_accumulate fsum_def)

lemma demo_data_Nil: "demo_data [] = Inr demo_ledger"
proof -
  have c1: "compute_fields hombre 3 (Finite 40) = Inr (Finite 35, Finite 120, Finite 105, Finite 15, False)"
    by (simp add: compute_fields_eq [OF COSTS_hombre int_to_float_3] fsub_def round2_def fl_eval)
  have i2: "int_to_float 2 = Inr (Finite 2)" by (simp add: int_to_float_def fl_eval)
  have c2: "compute_fields mujer 2 (Finite 28) = Inr (Finite 30, Finite 56, Finite 60, Finite (- 4), True)"
    by (simp add: compute_fields_eq [OF COSTS_mujer i2] fsub_def round2_def fl_eval)
  have c3: "compute_fields ninyo 4 (Finite 25) = Inr (Finite 22, Finite 100, Finite 88, Finite 12, False)"
    by (simp add: compute_fields_eq [OF COSTS_ninyo int_to_float_4] fsub_def round2_def fl_eval)
  have c4: "compute_fields hombre 1 (Finite 30) = Inr (Finite 35, Finite 30, Finite 35, Finite (- 5), True)"
    by (simp add: compute_fields_eq [OF COSTS_hombre int_to_float_1] fsub_def round2_def fl_eval)
  show ?thesis
    by (simp add: demo_data_def ejemplo_def c1 c2 c3 c4 demo_ledger_def)
qed

lemma summarize_profits:
  "\<exists>tv ga best D. summarize xs = (tv, ga, best, D)
     \<and> distinct (map fst D)
     \<and> (\<forall>k. map_of D k = (if k \<in> tipo ` set xs then Some (fsum (profits_of k xs)) else None))
     \<and> (best = None \<longleftrightarrow> xs = [])
     \<and> (xs \<noteq> [] \<longrightarrow> (\<forall>x\<in>set D. snd x \<noteq> NaN) \<longrightarrow>
          (\<exists>pre k v post. D = pre @ (k, v) # post \<and> best = Some k
             \<and> (\<forall>x\<in>set pre. flt (snd x) v) \<and> (\<forall>x\<in>set post. fge v (snd x))))"
proof -
  let ?D = "dict_loop [] xs"
  let ?best = "if ?D \<noteq> [] then Some (max_key ?D) else None"
  have s: "summarize xs =
    (round2 (fsum (map total_venta xs)), round2 (fsum (map ganancia xs)), ?best, ?D)"
    by (simp add: summarize_def foldl_accumulate fsum_def)
  have 1: "distinct (map fst ?D)" by (rule distinct_dict_loop) simp
  have 2: "\<forall>k. map_of ?D k = (if k \<in> tipo ` set xs then Some (fsum (profits_of k xs)) else None)"
    by (simp add: map_of_dict_loop fsum_def)
  have 3: "?best = None \<longleftrightarrow> xs = []" by (simp add: dict_loop_Nil_iff)
  have 4: "xs \<noteq> [] \<longrightarrow> (\<forall>x\<in>set ?D. snd x \<noteq> NaN) \<longrightarrow>
          (\<exists>pre k v post. ?D = pre @ (k, v) # post \<and> ?best = Some k
             \<and> (\<forall>x\<in>set pre. flt (snd x) v) \<and> (\<forall>x\<in>set post. fge v (snd x)))"
  proof (intro impI)
    assume ne: "xs \<noteq> []" and nn: "\<forall>x\<in>set ?D. snd x \<noteq> NaN"
    from ne have d: "?D \<noteq> []" by (simp add: dict_loop_Nil_iff)
    from max_key_first_maximum [OF d nn] d
    show "\<exists>pre k v post. ?D = pre @ (k, v) # post \<and> ?best = Some k
             \<and> (\<forall>x\<in>set pre. flt (snd x) v) \<and> (\<forall>x\<in>set post. fge v (snd x))"
      by simp
  qed
  show ?thesis
    by (rule exI [of _ "round2 (fsum (map total_venta xs))"],
        rule exI [of _ "round2 (fsum (map ganancia xs))"],
        rule exI [of _ ?best], rule exI [of _ ?D]) (intro conjI s 1 2 3 4)
qed

lemma nan_sessions:
  "add_sale example_int example_float example_now (example_console ''hombre'' ''3'' ''nan'') [] =
     \<lparr>ledger = [nan_ledger ! 0], saved = Some [nan_ledger ! 0], result = Registered (nan_ledger ! 0)\<rparr>"
  "add_sale example_int example_float example_now (example_console ''mujer'' ''3'' ''40'')
       [nan_ledger ! 0] =
     \<lparr>ledger = nan_ledger, saved = Some nan_ledger, result = Registered (nan_ledger ! 1)\<rparr>"
proof -
  have e2: "round2 (fmul (Finite 3) (Finite 35)) = Finite 105"
    by (simp add: round2_def fl_eval)
  have c1: "compute_fields ''hombre'' 3 NaN = Inr (Finite 35, NaN, Finite 105, NaN, False)"
    unfolding compute_fields_eq [OF COSTS_hombre int_to_float_3, unfolded hombre_def] e2
    by (simp add: round2_def fsub_def)
  have f1: "round2 (fmul (Finite 3) (Finite 40)) = Finite 120"
    by (simp add: round2_def fl_eval)
  have f2: "round2 (fmul (Finite 3) (Finite 30)) = Finite 90"
    by (simp add: round2_def fl_eval)
  have f3: "round2 (fsub (fmul (Finite 3) (Finite 40)) (fmul (Finite 3) (Finite 30))) = Finite 30"
    by (simp add: round2_def fsub_def fl_eval)
  have f4: "round2 (Finite 40) = Finite 40"
    by (simp add: round2_def fl_eval)
  have c2: "compute_fields ''mujer'' 3 (Finite 40) = Inr (Finite 30, Finite 120, Finite 90, Finite 30, False)"
    unfolding compute_fields_eq [OF COSTS_mujer int_to_float_3, unfolded mujer_def] f1 f2 f3
    by simp
  have t: "lower (strip ''hombre'') \<in> VALID_TYPES" "lower (strip ''mujer'') \<in> VALID_TYPES"
    "lower (strip ''hombre'') = ''hombre''" "lower (strip ''mujer'') = ''mujer''"
    "strip ''3'' = ''3''" "strip ''nan'' = ''nan''" "strip ''40'' = ''40''" "strip ''negro'' = ''negro''"
    by (simp_all add: VALID_TYPES_eq hombre_def mujer_def ninyo_def) code_simp+
  have a: "example_int ''3'' = Some 3" "example_float ''nan'' = Some NaN"
    "example_float ''40'' = Some (Finite 40)"
    by (simp_all add: example_int_def example_float_def)
  show "add_sale example_int example_float example_now (example_console ''hombre'' ''3'' ''nan'') [] =
     \<lparr>ledger = [nan_ledger ! 0], saved = Some [nan_ledger ! 0], result = Registered (nan_ledger ! 0)\<rparr>"
    using t(1)
    by (simp add: add_sale_def Let_def t(3-) a c1 round2_def nan_ledger_def
        strftime_example_1015 example_console_def parse_example_1015)
  show "add_sale example_int example_float example_now (example_console ''mujer'' ''3'' ''40'')
       [nan_ledger ! 0] =
     \<lparr>ledger = nan_ledger, saved = Some nan_ledger, result = Registered (nan_ledger ! 1)\<rparr>"
    using t(2)
    by (simp add: add_sale_def Let_def t(3-) a c2 f4 nan_ledger_def
        strftime_example_1015 example_console_def parse_example_1015)
qed

lemma nan_summary:
  "daily_summary nan_ledger \<lparr>year = 2025, month = 12, day = 29\<rparr> =
     Inr (NaN, NaN, Some ''hombre'', [(''hombre'', NaN), (''mujer'', Finite 30)])"
proof -
  have p: "\<forall>s\<in>set nan_ledger. parses s"
    by (simp add: nan_ledger_def parses_def stored_examples)
  have f: "filter (on_day \<lparr>year = 2025, month = 12, day = 29\<rparr>) nan_ledger = nan_ledger"
    by (simp add: nan_ledger_def on_day_def stored_examples date_of_def)
  have s: "summarize nan_ledger = (NaN, NaN, Some ''hombre'', [(''hombre'', NaN), (''mujer'', Finite 30)])"
    by (simp add: summarize_def accumulate_def nan_ledger_def max_key_def fgt_def round2_def fl_eval)
  show ?thesis by (simp only: daily_summary_filter [OF p] f s)
qed

text \<open>
  On the empty ledger both summaries return total 0, profit 0, no category and the empty
  mapping; so they do on every ledger whose stored timestamps parse and of which no
  record passes the filter.
\<close>

lemma empty_window_zero_summary:
  "daily_summary [] dt = Inr (Finite 0, Finite 0, None, [])
   \<and> weekly_summary [] yr wk = Inr (Finite 0, Finite 0, None, [])
   \<and> ((\<forall>s\<in>set sales. parses s) \<longrightarrow> filter (on_day dt) sales = [] \<longrightarrow>
         daily_summary sales dt = Inr (Finite 0, Finite 0, None, []))
   \<and> ((\<forall>s\<in>set sales. parses s) \<longrightarrow> filter (in_week yr wk) sales = [] \<longrightarrow>
         weekly_summary sales yr wk = Inr (Finite 0, Finite 0, None, []))"
proof -
  have 1: "daily_summary [] dt = Inr (Finite 0, Finite 0, None, [])"
    by (simp add: daily_summary_filter summarize_Nil)
  have 2: "weekly_summary [] yr wk = Inr (Finite 0, Finite 0, None, [])"
    by (simp add: weekly_summary_filter summarize_Nil)
  have 3: "(\<forall>s\<in>set sales. parses s) \<longrightarrow> filter (on_day dt) sales = [] \<longrightarrow>
         daily_summary sales dt = Inr (Finite 0, Finite 0, None, [])"
    by (simp add: daily_summary_filter summarize_Nil)
  have 4: "(\<forall>s\<in>set sales. parses s) \<longrightarrow> filter (in_week yr wk) sales = [] \<longrightarrow>
         weekly_summary sales yr wk = Inr (Finite 0, Finite 0, None, [])"
    by (simp add: weekly_summary_filter summarize_Nil)
  from 1 2 3 4 show ?thesis by blast
qed

text \<open>
  On the ledger of \<open>demo_data\<close> no record is of 2025-12-27, and none of ISO week 51 of
  2025.
\<close>

lemma empty_window_zero_summary_demo:
  "list_all parses demo_ledger
   \<and> filter (on_day \<lparr>year = 2025, month = 12, day = 27\<rparr>) demo_ledger = []
   \<and> daily_summary demo_ledger \<lparr>year = 2025, month = 12, day = 27\<rparr> = Inr (Finite 0, Finite 0, None, [])
   \<and> filter (in_week 2025 51) demo_ledger = []
   \<and> weekly_summary demo_ledger 2025 51 = Inr (Finite 0, Finite 0, None, [])"
  using empty_window_zero_summary [of "\<lparr>year = 2025, month = 12, day = 27\<rparr>" 2025 51 demo_ledger]
    demo_parses demo_on_day(2) demo_in_week(3)
  unfolding list_all_iff by blast

lemma cents_floats:
  "float_of_decimal 1 1 = Finite (3602879701896397 / 36028797018963968)"
  "float_of_decimal 2 1 = Finite (3602879701896397 / 18014398509481984)"
  "float_of_decimal 3 1 = Finite (5404319552844595 / 18014398509481984)"
  "float_of_decimal 4 3 = Finite (1152921504606847 / 288230376151711744)"
  "float_of_decimal 8 3 = Finite (1152921504606847 / 144115188075855872)"
  by (simp_all add: float_of_decimal_def fl_eval)

lemma cents_sums:
  "fsum [float_of_decimal 1 1, float_of_decimal 2 1] = Finite (1351079888211149 / 4503599627370496)"
  "fsum [float_of_decimal 4 3, float_of_decimal 4 3] = float_of_decimal 8 3"
  "round2 (Finite (1351079888211149 / 4503599627370496)) = float_of_decimal 3 1"
  "round2 (float_of_decimal 8 3) = float_of_decimal 1 2"
  "round2 (float_of_decimal 4 3) = Finite 0"
  "fsum [Finite 0, Finite 0] = Finite 0"
  unfolding cents_floats float_001
  by (simp_all add: fsum_def round2_def fl_eval)

lemma cents_parses: "\<forall>s\<in>set cents_ledger. parses s"
  by (simp add: cents_ledger_def parses_def stored_examples)

lemma cents_on_day:
  "filter (on_day \<lparr>year = 2025, month = 12, day = 29\<rparr>) cents_ledger = cents_ledger"
  by (simp add: cents_ledger_def on_day_def stored_examples date_of_def)

lemma cents_maps:
  "map total_venta cents_ledger = [float_of_decimal 1 1, float_of_decimal 2 1]"
  "map ganancia cents_ledger = [float_of_decimal 4 3, float_of_decimal 4 3]"
  "map (\<lambda>s. round2 (ganancia s)) cents_ledger = [Finite 0, Finite 0]"
  by (simp_all add: cents_ledger_def cents_sums)

lemma year999_parse:
  "parse_datetime now (strip ''0999-01-01 10:00'') =
     Inr \<lparr>year = 999, month = 1, day = 1, hour = 10, minute = 0, second = 0, microsecond = 0\<rparr>"
  by code_simp

lemma year999_strftime:
  "strftime \<lparr>year = 999, month = 1, day = 1, hour = 10, minute = 0, second = 0, microsecond = 0\<rparr>
     = ''999-01-01 10:00:00''"
  by code_simp

lemma year999_strptime: "strptime ''999-01-01 10:00:00'' STORED_FORMAT = Inl ValueError"
  by code_simp

lemma year999_session:
  "add_sale example_int example_float example_now year999_console [] =
     \<lparr>ledger = year999_ledger, saved = Some year999_ledger,
      result = Registered (year999_ledger ! 0)\<rparr>"
proof -
  have f1: "round2 (fmul (Finite 3) (Finite 40)) = Finite 120"
    by (simp add: round2_def fl_eval)
  have f2: "round2 (fmul (Finite 3) (Finite 35)) = Finite 105"
    by (simp add: round2_def fl_eval)
  have f3: "round2 (fsub (fmul (Finite 3) (Finite 40)) (fmul (Finite 3) (Finite 35))) = Finite 15"
    by (simp add: round2_def fsub_def fl_eval)
  have f4: "round2 (Finite 40) = Finite 40"
    by (simp add: round2_def fl_eval)
  have c: "compute_fields ''hombre'' 3 (Finite 40) =
             Inr (Finite 35, Finite 120, Finite 105, Finite 15, False)"
    unfolding compute_fields_eq [OF COSTS_hombre int_to_float_3, unfolded hombre_def] f1 f2 f3
    by simp
  have t: "lower (strip ''hombre'') \<in> VALID_TYPES" by (rule example_types)
  have a: "example_int ''3'' = Some 3" "example_float ''40'' = Some (Finite 40)"
    by (simp_all add: example_int_def example_float_def)
  have s: "strip ''40'' = ''40''" by code_simp
  show ?thesis
    using t
    by (simp add: add_sale_def Let_def strip_lower_examples s a c f4 year999_ledger_def
        year999_strftime year999_console_def year999_parse)
qed

text \<open>
  Claim C8 fails on a ledger that \<open>add_sale\<close> itself leaves. A sale dated
  \<open>0999-01-01 10:00\<close> is accepted and its timestamp is stored as \<open>999-01-01 10:00:00\<close>,
  the year without its leading zero, which \<open>strptime\<close> refuses under \<open>%Y\<close>. No record of
  that ledger is of 2025-12-29 or of ISO week 1 of 2026, yet both summaries raise
  \<open>ValueError\<close> where the claim has them return zeros.
\<close>

theorem summaries_raise_after_year_999:
  "add_sale example_int example_float example_now year999_console [] =
     \<lparr>ledger = year999_ledger, saved = Some year999_ledger,
      result = Registered (year999_ledger ! 0)\<rparr>
   \<and> map datetime year999_ledger = [''999-01-01 10:00:00'']
   \<and> strptime ''999-01-01 10:00:00'' STORED_FORMAT = Inl ValueError
   \<and> filter (on_day \<lparr>year = 2025, month = 12, day = 29\<rparr>) year999_ledger = []
   \<and> filter (in_week 2026 1) year999_ledger = []
   \<and> daily_summary year999_ledger \<lparr>year = 2025, month = 12, day = 29\<rparr> = Inl ValueError
   \<and> weekly_summary year999_ledger 2026 1 = Inl ValueError"
proof -
  have n: "\<not> (\<forall>s\<in>set year999_ledger. parses s)"
    by (simp add: year999_ledger_def parses_def year999_strptime)
  have f: "filter (on_day \<lparr>year = 2025, month = 12, day = 29\<rparr>) year999_ledger = []"
    "filter (in_week 2026 1) year999_ledger = []"
    by (simp_all add: year999_ledger_def on_day_def in_week_def year999_strptime)
  have m: "map datetime year999_ledger = [''999-01-01 10:00:00'']"
    by (simp add: year999_ledger_def)
  from year999_session m year999_strptime f daily_summary_error [OF n]
    weekly_summary_error [OF n]
  show ?thesis by (intro conjI)
qed

lemma round_half_even_nearest: "\<bar>real_of_int (round_half_even y) - y\<bar> \<le> 1 / 2"
proof -
  have "real_of_int \<lfloor>y\<rfloor> \<le> y" "y < real_of_int \<lfloor>y\<rfloor> + 1" by linarith+
  then show ?thesis
    by (auto simp: round_half_even_def Let_def abs_le_iff)
qed

lemma round2_nearest_cent:
  "\<exists>k. round2 (Finite x) = fl (real_of_int k / 100) \<and> \<bar>real_of_int k - 100 * x\<bar> \<le> 1 / 2"
  using round_half_even_nearest [of "x * 100"]
  by (intro exI [of _ "round_half_even (x * 100)"]) (simp add: round2_def mult.commute)

lemma cents_summary:
  "daily_summary cents_ledger \<lparr>year = 2025, month = 12, day = 29\<rparr> =
     Inr (float_of_decimal 3 1, float_of_decimal 1 2, Some hombre, [(hombre, float_of_decimal 8 3)])"
proof -
  have s: "summarize cents_ledger =
      (float_of_decimal 3 1, float_of_decimal 1 2, Some hombre, [(hombre, float_of_decimal 8 3)])"
    unfolding cents_ledger_def cents_floats float_001
    by (simp add: summarize_def accumulate_def max_key_def fgt_def round2_def fl_eval)
  show ?thesis by (simp only: daily_summary_filter [OF cents_parses] cents_on_day s)
qed

text \<open>
  Claim C5. On a ledger whose stored timestamps parse, \<open>daily_summary\<close> returns as total
  the running sum of the stored \<open>total\<close> fields of the records of the day, in the order
  of the ledger, rounded to two decimals once, after the last addition; and likewise
  the accumulated profit from the stored \<open>ganancia\<close> fields. Whenever \<open>daily_summary\<close>
  returns at all, these are its first two results; and when the sum is finite, the result
  is the double nearest to a whole number of hundredths that lies within half a hundredth
  of the sum.
\<close>

theorem daily_totals_rounded_once:
  "((\<forall>s\<in>set sales. parses s) \<longrightarrow>
      (\<exists>best D. daily_summary sales dt =
         Inr (round2 (fsum (map total_venta (filter (on_day dt) sales))),
              round2 (fsum (map ganancia (filter (on_day dt) sales))), best, D)))
   \<and> (daily_summary sales dt = Inr (tv, ga, best', D') \<longrightarrow>
         tv = round2 (fsum (map total_venta (filter (on_day dt) sales)))
         \<and> ga = round2 (fsum (map ganancia (filter (on_day dt) sales))))
   \<and> (daily_summary sales dt = Inr (tv, ga, best', D') \<longrightarrow>
         fsum (map total_venta (filter (on_day dt) sales)) = Finite x \<longrightarrow>
         (\<exists>k. tv = fl (real_of_int k / 100) \<and> \<bar>real_of_int k - 100 * x\<bar> \<le> 1 / 2))
   \<and> (daily_summary sales dt = Inr (tv, ga, best', D') \<longrightarrow>
         fsum (map ganancia (filter (on_day dt) sales)) = Finite y \<longrightarrow>
         (\<exists>k. ga = fl (real_of_int k / 100) \<and> \<bar>real_of_int k - 100 * y\<bar> \<le> 1 / 2))"
proof -
  have a: "(\<forall>s\<in>set sales. parses s) \<longrightarrow>
      (\<exists>best D. daily_summary sales dt =
         Inr (round2 (fsum (map total_venta (filter (on_day dt) sales))),
              round2 (fsum (map ganancia (filter (on_day dt) sales))), best, D))"
    using summarize_totals [of "filter (on_day dt) sales"] by (auto simp: daily_summary_filter)
  have b: "daily_summary sales dt = Inr (tv, ga, best', D') \<longrightarrow>
         tv = round2 (fsum (map total_venta (filter (on_day dt) sales)))
         \<and> ga = round2 (fsum (map ganancia (filter (on_day dt) sales)))"
  proof
    assume r: "daily_summary sales dt = Inr (tv, ga, best', D')"
    then have "\<forall>s\<in>set sales. parses s"
      using daily_summary_error [of sales dt] by auto
    with a r show "tv = round2 (fsum (map total_venta (filter (on_day dt) sales)))
         \<and> ga = round2 (fsum (map ganancia (filter (on_day dt) sales)))"
      by auto
  qed
  have c: "daily_summary sales dt = Inr (tv, ga, best', D') \<longrightarrow>
         fsum (map total_venta (filter (on_day dt) sales)) = Finite x \<longrightarrow>
         (\<exists>k. tv = fl (real_of_int k / 100) \<and> \<bar>real_of_int k - 100 * x\<bar> \<le> 1 / 2)"
    using b round2_nearest_cent [of x] by auto
  have d: "daily_summary sales dt = Inr (tv, ga, best', D') \<longrightarrow>
         fsum (map ganancia (filter (on_day dt) sales)) = Finite y \<longrightarrow>
         (\<exists>k. ga = fl (real_of_int k / 100) \<and> \<bar>real_of_int k - 100 * y\<bar> \<le> 1 / 2)"
    using b round2_nearest_cent [of y] by auto
  from a b c d show ?thesis by blast
qed

text \<open>
  The theorem on the ledger of \<open>demo_data\<close> and 2025-12-29, the scenario of the
  specification: total 176, accumulated profit 11. And on a ledger where the rounding
  shows: the totals \<open>0.1\<close> and \<open>0.2\<close> add up to \<open>0.30000000000000004\<close> and the summary
  gives \<open>0.3\<close>; the profits \<open>0.004\<close> and \<open>0.004\<close> add up to \<open>0.008\<close> and the summary
  gives \<open>0.01\<close>, whereas rounding each addend would give \<open>0.0\<close>.
\<close>

theorem daily_totals_rounded_once_witness:
  "list_all parses demo_ledger
   \<and> daily_summary demo_ledger \<lparr>year = 2025, month = 12, day = 29\<rparr> =
       Inr (Finite 176, Finite 11, Some hombre, [(hombre, Finite 15), (mujer, Finite (- 4))])
   \<and> Finite 176 = round2 (fsum (map total_venta (filter (on_day \<lparr>year = 2025, month = 12, day = 29\<rparr>) demo_ledger)))
   \<and> Finite 11 = round2 (fsum (map ganancia (filter (on_day \<lparr>year = 2025, month = 12, day = 29\<rparr>) demo_ledger)))
   \<and> list_all parses cents_ledger
   \<and> filter (on_day \<lparr>year = 2025, month = 12, day = 29\<rparr>) cents_ledger = cents_ledger
   \<and> map total_venta cents_ledger = [float_of_decimal 1 1, float_of_decimal 2 1]
   \<and> map ganancia cents_ledger = [float_of_decimal 4 3, float_of_decimal 4 3]
   \<and> daily_summary cents_ledger \<lparr>year = 2025, month = 12, day = 29\<rparr> =
         Inr (float_of_decimal 3 1, float_of_decimal 1 2, Some hombre,
              [(hombre, float_of_decimal 8 3)])
   \<and> fsum (map total_venta cents_ledger) = Finite (1351079888211149 / 4503599627370496)
   \<and> fsum (map total_venta cents_ledger) \<noteq> float_of_decimal 3 1
   \<and> (\<exists>k. float_of_decimal 3 1 = fl (real_of_int k / 100)
          \<and> \<bar>real_of_int k - 100 * (1351079888211149 / 4503599627370496)\<bar> \<le> 1 / 2)
   \<and> fsum (map ganancia cents_ledger) = float_of_decimal 8 3
   \<and> fsum (map ganancia cents_ledger) \<noteq> float_of_decimal 1 2
   \<and> (\<exists>k. float_of_decimal 1 2 = fl (real_of_int k / 100)
          \<and> \<bar>real_of_int k - 100 * (1152921504606847 / 144115188075855872)\<bar> \<le> 1 / 2)
   \<and> fsum (map (\<lambda>s. round2 (ganancia s)) cents_ledger) = Finite 0
   \<and> Finite 0 \<noteq> float_of_decimal 1 2"
proof -
  let ?d = "\<lparr>year = 2025, month = 12, day = 29\<rparr>"
  have r: "daily_summary demo_ledger ?d =
       Inr (Finite 176, Finite 11, Some hombre, [(hombre, Finite 15), (mujer, Finite (- 4))])"
    by (simp only: daily_summary_filter [OF demo_parses] demo_on_day summarize_demo_day)
  from daily_totals_rounded_once [of demo_ledger ?d
      "Finite 176" "Finite 11" "Some hombre" "[(hombre, Finite 15), (mujer, Finite (- 4))]"] r
  have A: "list_all parses demo_ledger
   \<and> daily_summary demo_ledger ?d =
       Inr (Finite 176, Finite 11, Some hombre, [(hombre, Finite 15), (mujer, Finite (- 4))])
   \<and> Finite 176 = round2 (fsum (map total_venta (filter (on_day ?d) demo_ledger)))
   \<and> Finite 11 = round2 (fsum (map ganancia (filter (on_day ?d) demo_ledger)))"
    using demo_parses unfolding list_all_iff by blast
  have st: "fsum (map total_venta (filter (on_day ?d) cents_ledger)) =
              Finite (1351079888211149 / 4503599627370496)"
    by (simp only: cents_on_day cents_maps cents_sums)
  have sg: "fsum (map ganancia (filter (on_day ?d) cents_ledger)) =
              Finite (1152921504606847 / 144115188075855872)"
    by (simp only: cents_on_day cents_maps cents_sums) (simp only: cents_floats)
  note T = daily_totals_rounded_once [of cents_ledger ?d "float_of_decimal 3 1"
      "float_of_decimal 1 2" "Some hombre" "[(hombre, float_of_decimal 8 3)]"
      "1351079888211149 / 4503599627370496" "1152921504606847 / 144115188075855872"]
  from T cents_summary st
  have k1: "\<exists>k. float_of_decimal 3 1 = fl (real_of_int k / 100)
          \<and> \<bar>real_of_int k - 100 * (1351079888211149 / 4503599627370496)\<bar> \<le> 1 / 2"
    by blast
  from T cents_summary sg
  have k2: "\<exists>k. float_of_decimal 1 2 = fl (real_of_int k / 100)
          \<and> \<bar>real_of_int k - 100 * (1152921504606847 / 144115188075855872)\<bar> \<le> 1 / 2"
    by blast
  have n: "Finite (1351079888211149 / 4503599627370496) \<noteq> float_of_decimal 3 1"
    "float_of_decimal 8 3 \<noteq> float_of_decimal 1 2" "Finite 0 \<noteq> float_of_decimal 1 2"
    unfolding cents_floats float_001 by simp_all
  from cents_parses have p: "list_all parses cents_ledger" by (simp add: list_all_iff)
  have B: "list_all parses cents_ledger
   \<and> filter (on_day ?d) cents_ledger = cents_ledger
   \<and> map total_venta cents_ledger = [float_of_decimal 1 1, float_of_decimal 2 1]
   \<and> map ganancia cents_ledger = [float_of_decimal 4 3, float_of_decimal 4 3]
   \<and> fsum (map total_venta cents_ledger) = Finite (1351079888211149 / 4503599627370496)
   \<and> fsum (map total_venta cents_ledger) \<noteq> float_of_decimal 3 1
   \<and> fsum (map ganancia cents_ledger) = float_of_decimal 8 3
   \<and> fsum (map ganancia cents_ledger) \<noteq> float_of_decimal 1 2
   \<and> fsum (map (\<lambda>s. round2 (ganancia s)) cents_ledger) = Finite 0
   \<and> Finite 0 \<noteq> float_of_decimal 1 2"
    using p n by (simp only: cents_on_day cents_maps cents_sums simp_thms)
  from A B cents_summary k1 k2 show ?thesis by blast
qed

text \<open>
  On a ledger whose stored timestamps parse, each summary is the
  summary of the records that pass its filter. In the summary of a list \<open>xs\<close> of records,
  the mapping has distinct keys, maps each category that has a record in \<open>xs\<close> to the
  running sum (not rounded) of the profits of its records, and no other key; the most
  profitable category is absent exactly when \<open>xs\<close> is empty; and when no value of the
  mapping is a NaN, it is the first key, in the order of the mapping, whose value is
  greatest: the values before it are smaller and the values after it are not greater.
\<close>

lemma profit_by_category_and_best:
  "((\<forall>s\<in>set sales. parses s) \<longrightarrow>
       daily_summary sales dt = Inr (summarize (filter (on_day dt) sales))
       \<and> weekly_summary sales yr wk = Inr (summarize (filter (in_week yr wk) sales)))
   \<and> (\<exists>tv ga best D. summarize xs = (tv, ga, best, D)
         \<and> distinct (map fst D)
         \<and> (\<forall>k. map_of D k =
                (if k \<in> tipo ` set xs then Some (fsum (profits_of k xs)) else None))
         \<and> (best = None \<longleftrightarrow> xs = [])
         \<and> (xs \<noteq> [] \<longrightarrow> (\<forall>x\<in>set D. snd x \<noteq> NaN) \<longrightarrow>
              (\<exists>pre k v post. D = pre @ (k, v) # post \<and> best = Some k
                 \<and> (\<forall>x\<in>set pre. flt (snd x) v) \<and> (\<forall>x\<in>set post. fge v (snd x)))))"
  using summarize_profits [of xs] daily_summary_filter [of sales dt]
    weekly_summary_filter [of sales yr wk]
  by blast

text \<open>
  On the ledger of \<open>demo_data\<close>, for 2025-12-29, the mapping is \<open>hombre\<close> to 15 and
  \<open>mujer\<close> to \<open>-4\<close>, and \<open>hombre\<close> is chosen.
\<close>

lemma profit_by_category_and_best_demo:
  "list_all parses demo_ledger
   \<and> daily_summary demo_ledger \<lparr>year = 2025, month = 12, day = 29\<rparr> =
        Inr (summarize (filter (on_day \<lparr>year = 2025, month = 12, day = 29\<rparr>) demo_ledger))
   \<and> weekly_summary demo_ledger 2026 1 = Inr (summarize (filter (in_week 2026 1) demo_ledger))
   \<and> summarize [demo_ledger ! 0, demo_ledger ! 1] =
        (Finite 176, Finite 11, Some hombre, [(hombre, Finite 15), (mujer, Finite (- 4))])
   \<and> [demo_ledger ! 0, demo_ledger ! 1] \<noteq> []
   \<and> Finite 15 \<noteq> NaN \<and> Finite (- 4) \<noteq> NaN
   \<and> map_of [(hombre, Finite 15), (mujer, Finite (- 4))] mujer =
        Some (fsum (profits_of mujer [demo_ledger ! 0, demo_ledger ! 1]))
   \<and> fge (Finite 15) (Finite (- 4))"
proof -
  let ?xs = "[demo_ledger ! 0, demo_ledger ! 1]"
  let ?D = "[(hombre, Finite 15), (mujer, Finite (- 4))]"
  note T = profit_by_category_and_best [of demo_ledger "\<lparr>year = 2025, month = 12, day = 29\<rparr>"
      2026 1 ?xs]
  from T demo_parses
  have a: "daily_summary demo_ledger \<lparr>year = 2025, month = 12, day = 29\<rparr> =
        Inr (summarize (filter (on_day \<lparr>year = 2025, month = 12, day = 29\<rparr>) demo_ledger))"
    and b: "weekly_summary demo_ledger 2026 1 = Inr (summarize (filter (in_week 2026 1) demo_ledger))"
    by blast+
  from T obtain tv ga best D where s: "summarize ?xs = (tv, ga, best, D)"
    and m: "\<forall>k. map_of D k =
                (if k \<in> tipo ` set ?xs then Some (fsum (profits_of k ?xs)) else None)"
    and x: "?xs \<noteq> [] \<longrightarrow> (\<forall>x\<in>set D. snd x \<noteq> NaN) \<longrightarrow>
              (\<exists>pre k v post. D = pre @ (k, v) # post \<and> best = Some k
                 \<and> (\<forall>x\<in>set pre. flt (snd x) v) \<and> (\<forall>x\<in>set post. fge v (snd x)))"
    by blast
  from s summarize_demo_day have D: "D = ?D" and best: "best = Some hombre" by simp_all
  have nn: "\<forall>x\<in>set ?D. snd x \<noteq> NaN" by simp
  have ne: "?xs \<noteq> []" by simp
  have mu: "mujer \<in> tipo ` set ?xs" by (simp add: demo_ledger_def)
  from m mu have m': "map_of ?D mujer = Some (fsum (profits_of mujer ?xs))"
    unfolding D by simp
  from x ne nn obtain pre k v post where d: "?D = pre @ (k, v) # post" and k: "Some hombre = Some k"
    and post: "\<forall>x\<in>set post. fge v (snd x)"
    unfolding D best by blast
  have "pre = []"
  proof (cases pre)
    case Nil
    then show ?thesis .
  next
    case (Cons a pre')
    with d have "a = (hombre, Finite 15)" by simp
    moreover from Cons d have "pre' @ (k, v) # post = [(mujer, Finite (- 4))]" by simp
    then have "(k, v) \<in> set [(mujer, Finite (- 4))]" by (metis in_set_conv_decomp)
    ultimately show ?thesis using k by (simp add: names_distinct)
  qed
  with d have "v = Finite 15" "post = [(mujer, Finite (- 4))]" by simp_all
  with post have g: "fge (Finite 15) (Finite (- 4))" by simp
  from demo_parses a b summarize_demo_day ne m' g show ?thesis
    unfolding list_all_iff by simp
qed

text \<open>
  Claim C6 fails on a ledger with a NaN profit, and \<open>add_sale\<close> builds one: the check
  \<open>precio_unitario < 0\<close> lets the price \<open>nan\<close> through (no comparison with a NaN holds),
  and the record stores a NaN total and a NaN profit. After a second sale of another
  category on the same day, the summary names \<open>hombre\<close>, whose value NaN is not greater
  than or equal to the value 30 of \<open>mujer\<close>: \<open>max\<close> keeps its first key because
  \<open>30 > nan\<close> does not hold.
\<close>

theorem most_profitable_category_nan:
  "add_sale example_int example_float example_now (example_console ''hombre'' ''3'' ''nan'') [] =
     \<lparr>ledger = [nan_ledger ! 0], saved = Some [nan_ledger ! 0],
      result = Registered (nan_ledger ! 0)\<rparr>
   \<and> add_sale example_int example_float example_now (example_console ''mujer'' ''3'' ''40'')
       [nan_ledger ! 0] =
     \<lparr>ledger = nan_ledger, saved = Some nan_ledger, result = Registered (nan_ledger ! 1)\<rparr>
   \<and> map ganancia nan_ledger = [NaN, Finite 30]
   \<and> daily_summary nan_ledger \<lparr>year = 2025, month = 12, day = 29\<rparr> =
       Inr (NaN, NaN, Some ''hombre'', [(''hombre'', NaN), (''mujer'', Finite 30)])
   \<and> \<not> fge NaN (Finite 30) \<and> fgt (Finite 30) NaN = False \<and> flt NaN (Finite 0) = False"
proof -
  have m: "map ganancia nan_ledger = [NaN, Finite 30]"
    by (simp add: nan_ledger_def)
  have c: "\<not> fge NaN (Finite 30)" "fgt (Finite 30) NaN = False" "flt NaN (Finite 0) = False"
    by (simp_all add: fge_def fgt_def)
  from nan_sessions m nan_summary c show ?thesis by (intro conjI)
qed

section \<open>The calendar: isocalendar computes the ISO week of the specification\<close>










lemma div7: "(x::int) = 7 * (x div 7) + x mod 7 \<and> 0 \<le> x mod 7 \<and> x mod 7 < 7"
  by simp

lemma isoweek1monday_bounds:
  "ymd2ord y 1 1 - 3 \<le> isoweek1monday y" "isoweek1monday y \<le> ymd2ord y 1 1 + 3"
  using div7 [of "ymd2ord y 1 1 + 6"]
  by (auto simp: isoweek1monday_def Let_def)








section \<open>Properties of strptime and parse_datetime\<close>














section \<open>The weekly filter and the accepted timestamps\<close>








end
